theory Spec2Isabelle
  imports Complex_Main
begin

section \<open>Data model\<close>

text \<open>
  The engine of \<^verbatim>\<open>app/algo.py\<close> and the ledger of \<^verbatim>\<open>app/db.py\<close>.
  Python floats and \<^verbatim>\<open>Decimal\<close> values are idealised as real numbers (no rounding,
  no NaN, no infinities); time stamps are integers counting nanoseconds.
\<close>

subsection \<open>The ledger (app/db.py)\<close>

text \<open>The columns of the table \<^verbatim>\<open>trades\<close>; \<^verbatim>\<open>type\<close> is the side of the order.\<close>

record trade =
  order_id :: string
  status :: string
  side :: string
  symbol :: string
  price :: real
  quantity :: real
  timestamp :: int
  pnl :: "real option"

text \<open>
  \<^verbatim>\<open>update_trade_status\<close>: the first row whose \<^verbatim>\<open>order_id\<close> matches gets the new
  status, whatever status it had; with no such row the table is unchanged.
\<close>

fun update_trade_status :: "trade list \<Rightarrow> string \<Rightarrow> string \<Rightarrow> trade list" where
  "update_trade_status [] oid new_status = []"
| "update_trade_status (t # ts) oid new_status =
     (if order_id t = oid then t\<lparr>status := new_status\<rparr> # ts
      else t # update_trade_status ts oid new_status)"

text \<open>\<^verbatim>\<open>create_trade\<close> appends a row.\<close>

definition create_trade :: "trade list \<Rightarrow> trade \<Rightarrow> trade list" where
  "create_trade db t = db @ [t]"

subsection \<open>The current bar\<close>

text \<open>
  The dictionary \<^verbatim>\<open>current_bar\<close>. Its module-level value has \<^verbatim>\<open>minute = None\<close>, which
  sends the first tick into the branch that starts a new bar, so the branch that updates
  the bar in progress only ever sees the finite high and low a started bar has.
\<close>

record bar =
  b_minute :: "int option"
  b_open :: real
  b_high :: real
  b_low :: real
  b_close :: real
  b_volume :: real

text \<open>Lines 488 to 491 of \<^verbatim>\<open>handle\<close>: the update of the bar in progress.\<close>

definition update_in_progress :: "bar \<Rightarrow> real \<Rightarrow> real \<Rightarrow> bar" where
  "update_in_progress b p sz =
     b\<lparr>b_high := max (b_high b) p, b_low := min (b_low b) p,
       b_close := p, b_volume := b_volume b + sz\<rparr>"

text \<open>Lines 483 to 485: a new bar is started.\<close>

definition start_new_bar :: "int \<Rightarrow> real \<Rightarrow> real \<Rightarrow> bar" where
  "start_new_bar m p sz =
     \<lparr>b_minute = Some m, b_open = p, b_high = p, b_low = p, b_close = p, b_volume = sz\<rparr>"

text \<open>Line 372: the test that sends a tick to the new-minute branch.\<close>

definition is_new_minute :: "bar \<Rightarrow> int \<Rightarrow> bool" where
  "is_new_minute b m = (case b_minute b of None \<Rightarrow> True | Some bm \<Rightarrow> m > bm)"


subsection \<open>Exceptions, exchange payloads and configuration\<close>

text \<open>
  The exceptions the code distinguishes. The flag of \<open>KucoinAPIException\<close> tells whether
  the message contains \<^verbatim>\<open>does not exist\<close>, which is all the code asks of it.
\<close>

datatype exn =
    KucoinAPIException bool
  | ValueError
  | ArithmeticError
  | TypeError
  | KeyError
  | IntegrityError
  | RuntimeError string
  | OtherException

text \<open>
  The payload of \<^verbatim>\<open>create_limit_order\<close> and \<^verbatim>\<open>create_market_order\<close> after
  \<^verbatim>\<open>raw.get("data", raw)\<close>: the status text in lower case and the value of
  \<^verbatim>\<open>order.get("orderId") or order.get("id")\<close>.
\<close>

record order_resp =
  r_status :: "string option"
  r_oid :: "string option"

text \<open>The payload of \<^verbatim>\<open>get_order\<close>; texts are carried in lower case.\<close>

record order_info =
  i_status :: "string option"
  i_isActive :: "bool option"
  i_opType :: "string option"
  i_dealPrice :: "real option"
  i_dealSize :: "real option"

record ticker =
  bestBid :: real
  bestAsk :: real

text \<open>An entry of \<^verbatim>\<open>get_accounts\<close>; \<open>None\<close> is an amount \<^verbatim>\<open>float\<close> cannot parse.\<close>

record account =
  a_currency :: string
  a_type :: string
  a_available :: "real option"

text \<open>
  A decimal number as the exchange writes it: \<open>coeff / 10 ^ places\<close>. The base increment
  is kept in this form because \<^verbatim>\<open>Decimal(str(BASE_INCREMENT))\<close> is used for its number of
  decimal places, not only for its value.
\<close>

record decimal =
  coeff :: int
  places :: nat

definition dec_val :: "decimal \<Rightarrow> real" where
  "dec_val d = real_of_int (coeff d) / 10 ^ places d"

text \<open>
  The number of fractional digits of \<^verbatim>\<open>str(x)\<close> for a float \<open>x\<close>: trailing zeros are
  dropped and one digit always stays (\<^verbatim>\<open>1.0\<close>, \<^verbatim>\<open>0.0001\<close>, \<^verbatim>\<open>1e-08\<close>).
\<close>

fun repr_places :: "int \<Rightarrow> nat \<Rightarrow> nat" where
  "repr_places c 0 = 1"
| "repr_places c (Suc n) = (if c mod 10 = 0 then repr_places (c div 10) n else Suc n)"

text \<open>The settings and the module constants that \<^verbatim>\<open>run_algo\<close> fills in.\<close>

record config =
  SYMBOL :: string
  BASE :: string
  QUOTE :: string
  HL_DIFF_THRESHOLD :: real
  PROFIT_TARGET_MULT :: real
  STOP_LOSS_MULT :: real
  TIME_STOP_MINUTES :: int
  ORDER_TYPE :: string
  LIMIT_SLIPPAGE :: real
  BASE_MIN_SIZE :: real
  BASE_INCREMENT :: decimal
  PRICE_INCREMENT :: real
  models_ready :: bool
  stop_requested :: bool

definition MAX_ORDER_RETRIES :: nat where
  "MAX_ORDER_RETRIES = 5"

definition INITIAL_RETRY_DELAY :: real where
  "INITIAL_RETRY_DELAY = 1"

text \<open>Sixty seconds, in nanoseconds.\<close>

definition BALANCE_CACHE_TTL :: int where
  "BALANCE_CACHE_TTL = 60 * 10 ^ 9"

subsection \<open>The outside world\<close>

text \<open>
  The exchange client, the clock and the two forecasting models are outside the program.
  They are a record of functions over a state \<open>'w\<close> of the world, so that every
  theorem holds for every exchange. Sizes and prices of orders are passed as numbers.
\<close>

record 'w gateway =
  clock :: "'w \<Rightarrow> int \<times> 'w"
  get_accounts :: "'w \<Rightarrow> (exn + account list) \<times> 'w"
  get_ticker :: "'w \<Rightarrow> (exn + ticker) \<times> 'w"
  create_limit_order :: "string \<Rightarrow> real \<Rightarrow> real \<Rightarrow> 'w \<Rightarrow> (exn + order_resp) \<times> 'w"
  create_market_order :: "string \<Rightarrow> real \<Rightarrow> 'w \<Rightarrow> (exn + order_resp) \<times> 'w"
  get_order :: "string \<Rightarrow> 'w \<Rightarrow> (exn + order_info) \<times> 'w"
  cancel_order :: "string \<Rightarrow> 'w \<Rightarrow> (exn + unit) \<times> 'w"
  predict :: "real list \<Rightarrow> 'w \<Rightarrow> (exn + real \<times> real) \<times> 'w"

text \<open>What the program does to the outside, in order, and what it logs.\<close>

datatype event =
    Attempt nat
  | Sleep real
  | SubmitLimit string real real
  | SubmitMarket string real
  | Cancel string
  | LogNoQuote
  | LogQtyBelowMin
  | LogBuyRequest real real
  | LogBuyFailed
  | LogBuyFilled
  | LogNotEnoughToSell
  | LogSellRequest real real
  | LogSellFailed
  | LogSellFilled
  | LogHandleException

text \<open>
  The state that the order pipeline and the balance cache work on: the world, the trace
  of events, the table of trades and the cache.
\<close>

record 'w sys =
  world :: 'w
  events :: "event list"
  db :: "trade list"
  balance_cache :: "string \<rightharpoonup> real"
  last_balance_fetch :: "int option"

definition emit :: "event \<Rightarrow> 'w sys \<Rightarrow> 'w sys" where
  "emit e sy = sy\<lparr>events := events sy @ [e]\<rparr>"

text \<open>
  The module-level variables that only \<^verbatim>\<open>handle\<close>, \<^verbatim>\<open>sync_open_trades\<close> and
  \<^verbatim>\<open>run_algo\<close> declare \<^verbatim>\<open>global\<close>, with the bar and the window. The functions of the order
  pipeline neither read nor assign them.
\<close>

record trading =
  available_quote :: real
  available_base :: real
  prediction_high :: "real option"
  prediction_low :: "real option"
  current_bar :: bar
  minList :: "bar list"
  in_position :: bool
  DV_before_trade :: real
  BP :: real
  exit_price :: real
  buy_time :: "int option"
  high_water :: "real option"
  wins :: nat
  losses :: nat
  total_PnL :: real


section \<open>The balance cache\<close>

text \<open>The loop of \<^verbatim>\<open>get_available\<close> that rebuilds the cache from the trade accounts.\<close>

fun build_cache :: "account list \<Rightarrow> (string \<rightharpoonup> real) \<Rightarrow> (string \<rightharpoonup> real)" where
  "build_cache [] c = c"
| "build_cache (a # as) c =
     build_cache as
       (if a_currency a \<noteq> [] \<and> a_type a = ''trade''
        then (case a_available a of Some v \<Rightarrow> c(a_currency a \<mapsto> v) | None \<Rightarrow> c)
        else c)"

text \<open>
  \<^verbatim>\<open>get_available\<close>: the cache is refreshed when it is empty or older than the time to
  live; a failed fetch keeps the old cache; a currency that is not cached reads as 0.
\<close>

definition get_available :: "'w gateway \<Rightarrow> string \<Rightarrow> 'w sys \<Rightarrow> real \<times> 'w sys" where
  "get_available g currency sy =
     (let (now, w1) = clock g (world sy);
          sy1 = sy\<lparr>world := w1\<rparr>;
          stale = (case last_balance_fetch sy1 of None \<Rightarrow> True
                   | Some t \<Rightarrow> now - t > BALANCE_CACHE_TTL);
          sy2 = (if stale then
                   (case get_accounts g (world sy1) of
                      (Inr accts, w2) \<Rightarrow>
                        sy1\<lparr>world := w2, balance_cache := build_cache accts Map.empty,
                            last_balance_fetch := Some now\<rparr>
                    | (Inl e, w2) \<Rightarrow> sy1\<lparr>world := w2\<rparr>)
                 else sy1)
      in (case balance_cache sy2 currency of None \<Rightarrow> 0 | Some v \<Rightarrow> v, sy2))"

section \<open>The order pipeline\<close>

text \<open>Rounding towards zero, as \<^verbatim>\<open>Decimal\<close>'s \<^verbatim>\<open>//\<close> and \<^verbatim>\<open>ROUND_DOWN\<close> do.\<close>

definition trunc :: "real \<Rightarrow> int" where
  "trunc x = (if 0 \<le> x then \<lfloor>x\<rfloor> else \<lceil>x\<rceil>)"

text \<open>
  \<^verbatim>\<open>floor_price_to_tick\<close>: \<^verbatim>\<open>(Decimal(str(p)) // inc) * inc\<close>, an error of the decimal
  module when the increment is zero. The result is a multiple of the increment, which
  the final \<^verbatim>\<open>quantize(inc)\<close> leaves as it is.
\<close>

definition floor_price_to_tick :: "config \<Rightarrow> real \<Rightarrow> exn + real" where
  "floor_price_to_tick cfg p =
     (let inc = PRICE_INCREMENT cfg
      in if inc = 0 then Inl ArithmeticError
         else Inr (real_of_int (trunc (p / inc)) * inc))"

text \<open>The exchange's status words mapped to the three of the ledger.\<close>

definition normalize_status :: "string option \<Rightarrow> string" where
  "normalize_status st =
     (let rs = (case st of None \<Rightarrow> [] | Some x \<Rightarrow> x)
      in if rs = ''done'' \<or> rs = ''filled'' then ''filled''
         else if rs = ''canceled'' \<or> rs = ''cancelled'' then ''canceled''
         else ''open'')"

text \<open>Lines 202 to 231 of \<^verbatim>\<open>place_order_with_retry\<close>: one submission.\<close>

definition submit_once ::
  "'w gateway \<Rightarrow> config \<Rightarrow> string \<Rightarrow> real option \<Rightarrow> real \<Rightarrow> 'w sys \<Rightarrow> (exn + order_resp) \<times> 'w sys" where
  "submit_once g cfg sd pr sz sy =
     (if ORDER_TYPE cfg = ''limit'' then
        (case pr of
           None \<Rightarrow> (Inl ValueError, sy)
         | Some p \<Rightarrow>
             (let (tk, w1) = get_ticker g (world sy);
                  sy1 = sy\<lparr>world := w1\<rparr>;
                  raw_price = (case tk of
                      Inr t \<Rightarrow> (if sd = ''buy'' then bestBid t * (1 + LIMIT_SLIPPAGE cfg)
                                else bestAsk t * (1 - LIMIT_SLIPPAGE cfg))
                    | Inl e \<Rightarrow> p)
              in case floor_price_to_tick cfg raw_price of
                   Inl e \<Rightarrow> (Inl e, sy1)
                 | Inr use_price \<Rightarrow>
                     (let (r, w2) = create_limit_order g sd use_price sz (world sy1)
                      in (r, emit (SubmitLimit sd use_price sz) (sy1\<lparr>world := w2\<rparr>)))))
      else
        (let (r, w1) = create_market_order g sd sz (world sy)
         in (r, emit (SubmitMarket sd sz) (sy\<lparr>world := w1\<rparr>))))"

text \<open>
  Lines 234 to 266: the order is written to the ledger with its normalised status. The
  column \<^verbatim>\<open>order_id\<close> is not nullable, so a payload without an id makes the commit fail.
\<close>

definition record_order ::
  "'w gateway \<Rightarrow> config \<Rightarrow> string \<Rightarrow> real option \<Rightarrow> real \<Rightarrow> order_resp \<Rightarrow> 'w sys
     \<Rightarrow> (exn + order_resp) \<times> 'w sys" where
  "record_order g cfg sd pr sz order sy =
     (let initial_status = normalize_status (r_status order);
          (now, w1) = clock g (world sy);
          sy1 = sy\<lparr>world := w1\<rparr>
      in case r_oid order of
           None \<Rightarrow> (Inl IntegrityError, sy1)
         | Some oid \<Rightarrow>
             (Inr order,
              sy1\<lparr>db := create_trade (db sy1)
                \<lparr>order_id = oid, status = initial_status, side = sd, symbol = SYMBOL cfg,
                 price = (case pr of None \<Rightarrow> 0 | Some p \<Rightarrow> p), quantity = sz,
                 timestamp = now, pnl = None\<rparr>\<rparr>))"

definition try_once ::
  "'w gateway \<Rightarrow> config \<Rightarrow> string \<Rightarrow> real option \<Rightarrow> real \<Rightarrow> 'w sys \<Rightarrow> (exn + order_resp) \<times> 'w sys" where
  "try_once g cfg sd pr sz sy =
     (case submit_once g cfg sd pr sz sy of
        (Inl e, sy1) \<Rightarrow> (Inl e, sy1)
      | (Inr order, sy1) \<Rightarrow> record_order g cfg sd pr sz order sy1)"

text \<open>
  The loop \<^verbatim>\<open>for attempt in range(1, MAX_ORDER_RETRIES + 1)\<close>, with the number of the
  attempt, the number of attempts left and the delay. A loop that ran out without
  returning or raising would return \<^verbatim>\<open>None\<close>.
\<close>

fun place_order_attempts ::
  "'w gateway \<Rightarrow> config \<Rightarrow> string \<Rightarrow> real option \<Rightarrow> real \<Rightarrow> nat \<Rightarrow> nat \<Rightarrow> real \<Rightarrow> 'w sys
     \<Rightarrow> (exn + order_resp option) \<times> 'w sys" where
  "place_order_attempts g cfg sd pr sz attempt 0 delay sy = (Inr None, sy)"
| "place_order_attempts g cfg sd pr sz attempt (Suc n) delay sy =
     (case try_once g cfg sd pr sz (emit (Attempt attempt) sy) of
        (Inr order, sy1) \<Rightarrow> (Inr (Some order), sy1)
      | (Inl e, sy1) \<Rightarrow>
          (if attempt = MAX_ORDER_RETRIES then (Inl e, sy1)
           else place_order_attempts g cfg sd pr sz (Suc attempt) n (delay * 2)
                  (emit (Sleep delay) sy1)))"

definition place_order_with_retry ::
  "'w gateway \<Rightarrow> config \<Rightarrow> string \<Rightarrow> real option \<Rightarrow> real \<Rightarrow> 'w sys
     \<Rightarrow> (exn + order_resp option) \<times> 'w sys" where
  "place_order_with_retry g cfg sd pr sz sy =
     place_order_attempts g cfg sd pr sz 1 MAX_ORDER_RETRIES INITIAL_RETRY_DELAY sy"

text \<open>
  The loop \<^verbatim>\<open>while True\<close> of \<^verbatim>\<open>place_and_confirm_order\<close>. It need not end: an exchange
  that always answers that the order does not exist keeps it polling, so the result is
  an option and \<open>None\<close> stands for a loop that never returns.
\<close>

partial_function (option) confirm_loop ::
  "'w gateway \<Rightarrow> string \<Rightarrow> int \<Rightarrow> 'w sys \<Rightarrow> ((exn + order_info) \<times> 'w sys) option" where
  "confirm_loop g oid start_time sy =
     (case get_order g oid (world sy) of
        (Inl e, w1) \<Rightarrow>
          (if e = KucoinAPIException True
           then confirm_loop g oid start_time (emit (Sleep (1 / 2)) (sy\<lparr>world := w1\<rparr>))
           else Some (Inl e, sy\<lparr>world := w1\<rparr>))
      | (Inr info, w1) \<Rightarrow>
          (let sy1 = sy\<lparr>world := w1\<rparr>;
               mapped = normalize_status (i_status info)
           in if \<not> (case i_isActive info of None \<Rightarrow> False | Some b \<Rightarrow> b) then
                (let sy2 = sy1\<lparr>db := update_trade_status (db sy1) oid mapped\<rparr>
                 in if mapped = ''filled'' then Some (Inr info, sy2)
                    else Some (Inl (RuntimeError (''Order '' @ oid @ '' '' @ mapped)), sy2))
              else
                (let (now, w2) = clock g (world sy1);
                     sy2 = sy1\<lparr>world := w2\<rparr>
                 in if now - start_time > 60 * 10 ^ 9 then
                      (case cancel_order g oid (world sy2) of
                         (Inl e, w3) \<Rightarrow> Some (Inl e, emit (Cancel oid) (sy2\<lparr>world := w3\<rparr>))
                       | (Inr u, w3) \<Rightarrow>
                           (let sy3 = emit (Cancel oid) (sy2\<lparr>world := w3\<rparr>)
                            in Some (Inl (RuntimeError (''Order '' @ oid @ '' canceled after timeout'')),
                                     sy3\<lparr>db := update_trade_status (db sy3) oid ''canceled''\<rparr>)))
                    else confirm_loop g oid start_time (emit (Sleep (1 / 2)) sy2))))"

text \<open>
  \<^verbatim>\<open>place_and_confirm_order\<close>. An order that was recorded has an id, so the branches for
  a missing order or id are never taken after a successful submission.
\<close>

definition place_and_confirm_order ::
  "'w gateway \<Rightarrow> config \<Rightarrow> string \<Rightarrow> real option \<Rightarrow> real \<Rightarrow> 'w sys
     \<Rightarrow> ((exn + order_info) \<times> 'w sys) option" where
  "place_and_confirm_order g cfg sd pr sz sy =
     (case place_order_with_retry g cfg sd pr sz sy of
        (Inl e, sy1) \<Rightarrow> Some (Inl e, sy1)
      | (Inr None, sy1) \<Rightarrow> Some (Inl TypeError, sy1)
      | (Inr (Some order), sy1) \<Rightarrow>
          (case r_oid order of
             None \<Rightarrow> Some (Inl TypeError, sy1)
           | Some oid \<Rightarrow>
               (let (start_time, w1) = clock g (world sy1)
                in confirm_loop g oid start_time (sy1\<lparr>world := w1\<rparr>))))"


section \<open>The message handler\<close>

text \<open>
  A feed message: the topic, as far as \<^verbatim>\<open>handle\<close> tells topics apart, and the fields of
  \<^verbatim>\<open>data\<close> that it reads. \<open>None\<close> for the data is the missing or empty dictionary.
\<close>

datatype topic = Match | TickerTopic | OtherTopic

record tick_data =
  d_price :: "real option"
  d_bestAsk :: "real option"
  d_time :: "int option"
  d_size :: "real option"

record msg =
  m_topic :: topic
  m_data :: "tick_data option"

text \<open>Lines 360 to 366: the price of a tick, nothing for a topic that is not tracked.\<close>

definition tick_price :: "topic \<Rightarrow> tick_data \<Rightarrow> real option" where
  "tick_price tp d =
     (case tp of
        Match \<Rightarrow> Some (case d_price d of None \<Rightarrow> 0 | Some p \<Rightarrow> p)
      | TickerTopic \<Rightarrow>
          Some (case d_bestAsk d of
                  Some a \<Rightarrow> a
                | None \<Rightarrow> (case d_price d of None \<Rightarrow> 0 | Some p \<Rightarrow> p))
      | OtherTopic \<Rightarrow> None)"

definition floor_minute :: "int \<Rightarrow> int" where
  "floor_minute ts = ts - ts mod (60 * 10 ^ 9)"

text \<open>\<^verbatim>\<open>minList.append\<close> on a deque of at most five entries.\<close>

definition push5 :: "bar list \<Rightarrow> bar \<Rightarrow> bar list" where
  "push5 ml b = (let xs = ml @ [b] in drop (length xs - 5) xs)"

text \<open>
  The buy quantity: \<^verbatim>\<open>quantize(Decimal(str(BASE_INCREMENT)), rounding=ROUND_DOWN)\<close> cuts
  the quotient to as many decimal places as the text of the increment has.
\<close>

definition quantize_down :: "decimal \<Rightarrow> real \<Rightarrow> real" where
  "quantize_down q x =
     (let n = repr_places (coeff q) (places q)
      in real_of_int (trunc (x * 10 ^ n)) / 10 ^ n)"

text \<open>Python's \<^verbatim>\<open>round(x, n)\<close>: to the nearest, a tie to the even neighbour.\<close>

definition round_half_even :: "real \<Rightarrow> int" where
  "round_half_even x =
     (let f = \<lfloor>x\<rfloor>; r = x - real_of_int f
      in if r < 1 / 2 then f else if r > 1 / 2 then f + 1
         else if even f then f else f + 1)"

definition py_round :: "real \<Rightarrow> nat \<Rightarrow> real" where
  "py_round x n = real_of_int (round_half_even (x * 10 ^ n)) / 10 ^ n"

text \<open>
  Lines 445 to 448: the sell quantity, the cached base balance floored to a multiple of
  the base increment (of \<^verbatim>\<open>1e-6\<close> when the increment is zero) and rounded to the
  increment's number of places. \<^verbatim>\<open>math.log10\<close> raises on a negative number.
\<close>

definition sell_qty :: "config \<Rightarrow> real \<Rightarrow> exn + real" where
  "sell_qty cfg raw_q =
     (let inc = (if dec_val (BASE_INCREMENT cfg) = 0 then 1 / 10 ^ 6
                 else dec_val (BASE_INCREMENT cfg))
      in if inc < 0 then Inl ValueError
         else (let prec = nat (max 0 (- trunc (log 10 inc)))
               in Inr (py_round (real_of_int \<lfloor>raw_q / inc\<rfloor> * inc) prec)))"

text \<open>
  Lines 419 to 434: the buy is placed and confirmed. A failure of the pipeline is logged
  and the cycle goes on; a fill without price or size raises in the \<^verbatim>\<open>else\<close> block,
  which the handler of the \<^verbatim>\<open>try\<close> does not cover.
\<close>

definition attempt_buy ::
  "'w gateway \<Rightarrow> config \<Rightarrow> int \<Rightarrow> real \<Rightarrow> real \<Rightarrow> trading \<times> 'w sys
     \<Rightarrow> ((exn + unit) \<times> trading \<times> 'w sys) option" where
  "attempt_buy g cfg ts qty price_dec st =
     (case st of (tr, sy) \<Rightarrow>
        (let tr1 = tr\<lparr>DV_before_trade := available_quote tr\<rparr>;
             sy1 = emit (LogBuyRequest qty price_dec) sy
         in case place_and_confirm_order g cfg ''buy'' (Some price_dec) qty sy1 of
              None \<Rightarrow> None
            | Some (Inl e, sy2) \<Rightarrow> Some (Inr (), tr1, emit LogBuyFailed sy2)
            | Some (Inr filled, sy2) \<Rightarrow>
                (case i_dealPrice filled of
                   None \<Rightarrow> Some (Inl KeyError, tr1, sy2)
                 | Some fp \<Rightarrow>
                     (case i_dealSize filled of
                        None \<Rightarrow> Some (Inl KeyError, tr1, sy2)
                      | Some fs \<Rightarrow>
                          Some (Inr (),
                                tr1\<lparr>in_position := True, BP := fp, buy_time := Some ts,
                                    high_water := Some fp,
                                    exit_price := fp * PROFIT_TARGET_MULT cfg\<rparr>,
                                emit LogBuyFilled sy2)))))"

text \<open>Lines 396 to 434: the entry, once the signal allows it.\<close>

definition buy_branch ::
  "'w gateway \<Rightarrow> config \<Rightarrow> real \<Rightarrow> int \<Rightarrow> trading \<times> 'w sys
     \<Rightarrow> ((exn + unit) \<times> trading \<times> 'w sys) option" where
  "buy_branch g cfg pr ts st =
     (case st of (tr, sy) \<Rightarrow>
        (if available_quote tr \<le> 1 / 10 ^ 8 then Some (Inr (), tr, emit LogNoQuote sy)
         else
           (let (tk, w1) = get_ticker g (world sy);
                sy1 = sy\<lparr>world := w1\<rparr>;
                raw_p = (case tk of Inr t \<Rightarrow> bestBid t * (1 + LIMIT_SLIPPAGE cfg)
                         | Inl e \<Rightarrow> pr)
            in case floor_price_to_tick cfg raw_p of
                 Inl e \<Rightarrow> Some (Inl e, tr, sy1)
               | Inr price_dec \<Rightarrow>
                   (if price_dec = 0 then Some (Inl ArithmeticError, tr, sy1)
                    else
                      (let qty = quantize_down (BASE_INCREMENT cfg)
                                   (available_quote tr / price_dec)
                       in if qty < BASE_MIN_SIZE cfg
                          then Some (Inr (), tr, emit LogQtyBelowMin sy1)
                          else attempt_buy g cfg ts qty price_dec (tr, sy1))))))"

text \<open>Lines 452 to 480: the sell is placed and confirmed, and a filled sell is booked.\<close>

definition attempt_sell ::
  "'w gateway \<Rightarrow> config \<Rightarrow> real \<Rightarrow> int \<Rightarrow> real \<Rightarrow> trading \<times> 'w sys
     \<Rightarrow> ((exn + unit) \<times> trading \<times> 'w sys) option" where
  "attempt_sell g cfg pr ts qty st =
     (case st of (tr, sy) \<Rightarrow>
        (case place_and_confirm_order g cfg ''sell'' (Some pr) qty
                (emit (LogSellRequest qty pr) sy) of
           None \<Rightarrow> None
         | Some (Inl e, sy2) \<Rightarrow> Some (Inr (), tr, emit LogSellFailed sy2)
         | Some (Inr filled, sy2) \<Rightarrow>
             (case i_dealPrice filled of
                None \<Rightarrow> Some (Inl KeyError, tr, sy2)
              | Some fp \<Rightarrow>
                  (case i_dealSize filled of
                     None \<Rightarrow> Some (Inl KeyError, tr, sy2)
                   | Some fs \<Rightarrow>
                       (let (DV_after, sy3) = get_available g (QUOTE cfg) sy2;
                            pnl_v = DV_after - DV_before_trade tr;
                            tr1 = tr\<lparr>in_position := False,
                                     wins := wins tr + (if pnl_v \<ge> 0 then 1 else 0),
                                     losses := losses tr + (if pnl_v < 0 then 1 else 0),
                                     total_PnL := total_PnL tr + pnl_v\<rparr>;
                            sy4 = emit LogSellFilled sy3
                        in Some (Inr (), tr1,
                                 sy4\<lparr>db := create_trade (db sy4)
                                   \<lparr>order_id = ''N/A'', status = ''filled'', side = ''sell'',
                                    symbol = SYMBOL cfg, price = fp, quantity = fs,
                                    timestamp = ts, pnl = Some pnl_v\<rparr>\<rparr>))))))"

text \<open>Lines 445 to 480: the quantity to sell is validated, then the sell is attempted.\<close>

definition exit_attempt ::
  "'w gateway \<Rightarrow> config \<Rightarrow> real \<Rightarrow> int \<Rightarrow> trading \<times> 'w sys
     \<Rightarrow> ((exn + unit) \<times> trading \<times> 'w sys) option" where
  "exit_attempt g cfg pr ts st =
     (case st of (tr, sy) \<Rightarrow>
        (case sell_qty cfg (available_base tr) of
           Inl e \<Rightarrow> Some (Inl e, tr, sy)
         | Inr qty \<Rightarrow>
             (if qty \<le> BASE_MIN_SIZE cfg then Some (Inr (), tr, emit LogNotEnoughToSell sy)
              else attempt_sell g cfg pr ts qty (tr, sy))))"

text \<open>
  Lines 441 to 443: the condition of the exit. The time stop is only evaluated when the
  two tests before it are false, and raises when there is no time of entry.
\<close>

definition exit_trigger ::
  "config \<Rightarrow> real \<Rightarrow> real \<Rightarrow> real \<Rightarrow> int \<Rightarrow> int option \<Rightarrow> exn + bool" where
  "exit_trigger cfg pr hw curH ts bt =
     (if pr \<le> hw * STOP_LOSS_MULT cfg \<or> curH < 0 then Inr True
      else (case bt of
              None \<Rightarrow> Inl TypeError
            | Some b \<Rightarrow> Inr (ts > b + TIME_STOP_MINUTES cfg * (60 * 10 ^ 9))))"

text \<open>Lines 437 to 480: the branch taken while in position.\<close>

definition sell_branch ::
  "'w gateway \<Rightarrow> config \<Rightarrow> real \<Rightarrow> real \<Rightarrow> int \<Rightarrow> trading \<times> 'w sys
     \<Rightarrow> ((exn + unit) \<times> trading \<times> 'w sys) option" where
  "sell_branch g cfg pr curH ts st =
     (case st of (tr, sy) \<Rightarrow>
        (case high_water tr of
           None \<Rightarrow> Some (Inl TypeError, tr, sy)
         | Some hw0 \<Rightarrow>
             (let hw = (if pr > hw0 then pr else hw0);
                  tr1 = tr\<lparr>high_water := Some hw\<rparr>
              in case exit_trigger cfg pr hw curH ts (buy_time tr1) of
                   Inl e \<Rightarrow> Some (Inl e, tr1, sy)
                 | Inr True \<Rightarrow> exit_attempt g cfg pr ts (tr1, sy)
                 | Inr False \<Rightarrow> Some (Inr (), tr1, sy))))"


text \<open>
  Lines 375 to 480: with the models loaded and two bars in the window, the features are
  built (a division by zero raises), the models are asked (one call for the pair of
  them), the prediction is stored, and the position is evaluated.
\<close>

definition evaluate ::
  "'w gateway \<Rightarrow> config \<Rightarrow> real \<Rightarrow> int \<Rightarrow> trading \<times> 'w sys
     \<Rightarrow> ((exn + unit) \<times> trading \<times> 'w sys) option" where
  "evaluate g cfg pr ts st =
     (case st of (tr, sy) \<Rightarrow>
        (if models_ready cfg \<and> length (minList tr) \<ge> 2 then
           (let b1 = minList tr ! (length (minList tr) - 1);
                b2 = minList tr ! (length (minList tr) - 2)
            in if b_open b2 = 0 \<or> b_open b1 = 0 then Some (Inl ArithmeticError, tr, sy)
               else
                 (let feat = [b_open b1 / b_open b2, b_high b1 / b_open b1,
                              b_low b1 / b_open b1, b_close b1 / b_open b1,
                              b_volume b1 - b_volume b2];
                      (r, w1) = predict g feat (world sy);
                      sy1 = sy\<lparr>world := w1\<rparr>
                  in case r of
                       Inl e \<Rightarrow> Some (Inl e, tr, sy1)
                     | Inr (curH, curL) \<Rightarrow>
                         (let tr1 = tr\<lparr>prediction_high := Some curH,
                                        prediction_low := Some curL\<rparr>
                          in if b_low b1 = 0 then Some (Inl ArithmeticError, tr1, sy1)
                             else
                               (let hl_diff = b_high b1 / b_low b1
                                in if \<not> in_position tr1 \<and> \<not> stop_requested cfg
                                      \<and> hl_diff \<ge> HL_DIFF_THRESHOLD cfg
                                      \<and> curH \<ge> 0 \<and> curL > 0
                                   then buy_branch g cfg pr ts (tr1, sy1)
                                   else if in_position tr1
                                   then sell_branch g cfg pr curH ts (tr1, sy1)
                                   else Some (Inr (), tr1, sy1)))))
         else Some (Inr (), tr, sy)))"

text \<open>
  \<^verbatim>\<open>handle\<close>. Whatever is raised inside is logged and swallowed, and what was assigned
  before stays assigned; in particular the new bar is not started then.
\<close>

definition handle ::
  "'w gateway \<Rightarrow> config \<Rightarrow> msg \<Rightarrow> trading \<times> 'w sys \<Rightarrow> (trading \<times> 'w sys) option" where
  "handle g cfg m st =
     (case st of (tr, sy) \<Rightarrow>
        (case m_data m of
           None \<Rightarrow> Some (tr, sy)
         | Some d \<Rightarrow>
             (let (aq, sy1) = get_available g (QUOTE cfg) sy;
                  (ab, sy2) = get_available g (BASE cfg) sy1;
                  tr1 = tr\<lparr>available_quote := aq, available_base := ab\<rparr>
              in case tick_price (m_topic m) d of
                   None \<Rightarrow> Some (tr1, sy2)
                 | Some pr \<Rightarrow>
                     (case d_time d of
                        None \<Rightarrow> Some (tr1, emit LogHandleException sy2)
                      | Some ts \<Rightarrow>
                          (let minute = floor_minute ts;
                               sz = (case d_size d of None \<Rightarrow> 0 | Some z \<Rightarrow> z)
                           in if is_new_minute (current_bar tr1) minute then
                                (case (if b_minute (current_bar tr1) \<noteq> None
                                       then evaluate g cfg pr ts
                                              (tr1\<lparr>minList := push5 (minList tr1) (current_bar tr1)\<rparr>,
                                               sy2)
                                       else Some (Inr (), tr1, sy2)) of
                                   None \<Rightarrow> None
                                 | Some (Inl e, tr3, sy3) \<Rightarrow>
                                     Some (tr3, emit LogHandleException sy3)
                                 | Some (Inr u, tr3, sy3) \<Rightarrow>
                                     Some (tr3\<lparr>current_bar := start_new_bar minute pr sz\<rparr>, sy3))
                              else
                                Some (tr1\<lparr>current_bar :=
                                            update_in_progress (current_bar tr1) pr sz\<rparr>,
                                      sy2))))))"

text \<open>A sequence of messages, one call of \<^verbatim>\<open>handle\<close> after the other.\<close>

fun handle_all ::
  "'w gateway \<Rightarrow> config \<Rightarrow> msg list \<Rightarrow> trading \<times> 'w sys \<Rightarrow> (trading \<times> 'w sys) option" where
  "handle_all g cfg [] st = Some st"
| "handle_all g cfg (m # ms) st =
     (case handle g cfg m st of None \<Rightarrow> None | Some st1 \<Rightarrow> handle_all g cfg ms st1)"

section \<open>Reconciliation\<close>

text \<open>
  \<^verbatim>\<open>fetch_order_with_retry\<close> with its defaults: three attempts, an exception of the
  exchange client is retried after \<^verbatim>\<open>0.5 * 2 ** (attempt - 1)\<close> seconds, any other
  exception leaves at once.
\<close>

fun fetch_attempts ::
  "'w gateway \<Rightarrow> string \<Rightarrow> nat \<Rightarrow> nat \<Rightarrow> 'w sys \<Rightarrow> (exn + order_info option) \<times> 'w sys" where
  "fetch_attempts g oid attempt 0 sy = (Inr None, sy)"
| "fetch_attempts g oid attempt (Suc n) sy =
     (case get_order g oid (world sy) of
        (Inr info, w1) \<Rightarrow> (Inr (Some info), sy\<lparr>world := w1\<rparr>)
      | (Inl e, w1) \<Rightarrow>
          (case e of
             KucoinAPIException b \<Rightarrow>
               (if attempt = 3 then (Inl e, sy\<lparr>world := w1\<rparr>)
                else fetch_attempts g oid (Suc attempt) n
                       (emit (Sleep (1 / 2 * 2 ^ (attempt - 1))) (sy\<lparr>world := w1\<rparr>)))
           | _ \<Rightarrow> (Inl e, sy\<lparr>world := w1\<rparr>)))"

definition fetch_order_with_retry ::
  "'w gateway \<Rightarrow> string \<Rightarrow> 'w sys \<Rightarrow> (exn + order_info option) \<times> 'w sys" where
  "fetch_order_with_retry g oid sy = fetch_attempts g oid 1 3 sy"

text \<open>Lines 556 to 561: the operation type of an inactive order as a status.\<close>

definition real_status_of :: "string option \<Rightarrow> string" where
  "real_status_of ot =
     (let op_type = (case ot of None \<Rightarrow> [] | Some x \<Rightarrow> x)
      in if op_type = ''deal'' then ''filled''
         else if op_type = ''cancel'' then ''canceled''
         else ''open'')"

text \<open>
  The loop of \<^verbatim>\<open>sync_open_trades\<close> over the rows that were pending when it started. The
  rows are the ones read at the start; the updates go to the table.
\<close>

fun sync_loop ::
  "'w gateway \<Rightarrow> config \<Rightarrow> trade list \<Rightarrow> trading \<times> 'w sys \<Rightarrow> trading \<times> 'w sys" where
  "sync_loop g cfg [] st = st"
| "sync_loop g cfg (t # ts) st =
     (case st of (tr, sy) \<Rightarrow>
        (case fetch_order_with_retry g (order_id t) sy of
           (Inl e, sy1) \<Rightarrow> sync_loop g cfg ts (tr, sy1)
         | (Inr None, sy1) \<Rightarrow> sync_loop g cfg ts (tr, sy1)
         | (Inr (Some data), sy1) \<Rightarrow>
             (if (case i_isActive data of None \<Rightarrow> True | Some b \<Rightarrow> b)
              then sync_loop g cfg ts (tr, sy1)
              else
                (let real_status = real_status_of (i_opType data)
                 in if real_status \<noteq> status t then
                      (let sy2 = sy1\<lparr>db := update_trade_status (db sy1) (order_id t) real_status\<rparr>
                       in if side t = ''buy'' \<and> real_status = ''filled'' then
                            (let (dv, sy3) = get_available g (QUOTE cfg) sy2
                             in sync_loop g cfg ts
                                  (tr\<lparr>in_position := True, BP := price t,
                                      buy_time := Some (timestamp t),
                                      high_water := Some (price t),
                                      exit_price := price t * PROFIT_TARGET_MULT cfg,
                                      DV_before_trade := dv\<rparr>, sy3))
                          else sync_loop g cfg ts (tr, sy2))
                    else sync_loop g cfg ts (tr, sy1)))))"

definition pending_trades :: "trade list \<Rightarrow> trade list" where
  "pending_trades rows = filter (\<lambda>t. status t \<noteq> ''filled'' \<and> status t \<noteq> ''canceled'') rows"

definition sync_open_trades ::
  "'w gateway \<Rightarrow> config \<Rightarrow> trading \<times> 'w sys \<Rightarrow> trading \<times> 'w sys" where
  "sync_open_trades g cfg st = sync_loop g cfg (pending_trades (db (snd st))) st"


section \<open>Observations and sample data\<close>

text \<open>What a message carries once \<^verbatim>\<open>handle\<close> has read it: price, size and minute.\<close>

definition msg_price :: "msg \<Rightarrow> real option" where
  "msg_price m = (case m_data m of None \<Rightarrow> None | Some d \<Rightarrow> tick_price (m_topic m) d)"

definition msg_size :: "msg \<Rightarrow> real" where
  "msg_size m = (case m_data m of None \<Rightarrow> 0
                 | Some d \<Rightarrow> (case d_size d of None \<Rightarrow> 0 | Some z \<Rightarrow> z))"

definition msg_minute :: "msg \<Rightarrow> int option" where
  "msg_minute m = (case m_data m of None \<Rightarrow> None
                   | Some d \<Rightarrow> map_option floor_minute (d_time d))"

text \<open>A tick of a tracked topic whose time stamp falls in the minute \<open>bm\<close>.\<close>

definition in_minute :: "int \<Rightarrow> msg \<Rightarrow> bool" where
  "in_minute bm m = (msg_price m \<noteq> None \<and> msg_minute m = Some bm)"

text \<open>An exchange where every call fails, a clock that stands still.\<close>

definition quiet :: "nat gateway" where
  "quiet =
     \<lparr>clock = (\<lambda>w. (0, w)),
      get_accounts = (\<lambda>w. (Inl OtherException, w)),
      get_ticker = (\<lambda>w. (Inl OtherException, w)),
      create_limit_order = (\<lambda>sd p z w. (Inl OtherException, w)),
      create_market_order = (\<lambda>sd z w. (Inl OtherException, w)),
      get_order = (\<lambda>oid w. (Inl OtherException, w)),
      cancel_order = (\<lambda>oid w. (Inl OtherException, w)),
      predict = (\<lambda>f w. (Inl OtherException, w))\<rparr>"

definition cfg0 :: config where
  "cfg0 =
     \<lparr>SYMBOL = ''KCS-USDT'', BASE = ''KCS'', QUOTE = ''USDT'',
      HL_DIFF_THRESHOLD = 2 / 1000, PROFIT_TARGET_MULT = 1001 / 1000,
      STOP_LOSS_MULT = 99 / 100, TIME_STOP_MINUTES = 45, ORDER_TYPE = ''market'',
      LIMIT_SLIPPAGE = 1 / 1000, BASE_MIN_SIZE = 1 / 10,
      BASE_INCREMENT = \<lparr>coeff = 1, places = 4\<rparr>, PRICE_INCREMENT = 1 / 1000,
      models_ready = True, stop_requested = False\<rparr>"

definition bar0 :: bar where
  "bar0 = \<lparr>b_minute = Some 0, b_open = 10, b_high = 10, b_low = 10, b_close = 10, b_volume = 1\<rparr>"

definition tr0 :: trading where
  "tr0 =
     \<lparr>available_quote = 0, available_base = 0, prediction_high = None,
      prediction_low = None, current_bar = bar0, minList = [], in_position = False,
      DV_before_trade = 0, BP = 0, exit_price = 0, buy_time = None, high_water = None,
      wins = 0, losses = 0, total_PnL = 0\<rparr>"

definition sy0 :: "nat sys" where
  "sy0 = \<lparr>world = 0, events = [], db = [], balance_cache = Map.empty,
          last_balance_fetch = None\<rparr>"

definition tick :: "real \<Rightarrow> real \<Rightarrow> int \<Rightarrow> msg" where
  "tick p z ts =
     \<lparr>m_topic = Match,
      m_data = Some \<lparr>d_price = Some p, d_bestAsk = None, d_time = Some ts, d_size = Some z\<rparr>\<rparr>"

definition open_buy :: trade where
  "open_buy =
     \<lparr>order_id = ''A1'', status = ''open'', side = ''buy'', symbol = ''KCS-USDT'',
      price = 10, quantity = 2, timestamp = 7, pnl = None\<rparr>"



text \<open>An exchange that reports every order as inactive after a deal.\<close>

definition deal_info :: order_info where
  "deal_info = \<lparr>i_status = None, i_isActive = Some False, i_opType = Some ''deal'',
                 i_dealPrice = Some 10, i_dealSize = Some 2\<rparr>"

definition deal_gateway :: "nat gateway" where
  "deal_gateway = quiet\<lparr>get_order := (\<lambda>oid w. (Inr deal_info, w))\<rparr>"


text \<open>
  Reading a trace: the numbers of the submission attempts, the delays slept, and the
  events a call added. \<open>backoff d k\<close> is \<open>k\<close> delays that start at \<open>d\<close> and double.
\<close>

fun attempts_of :: "event list \<Rightarrow> nat list" where
  "attempts_of [] = []"
| "attempts_of (Attempt n # es) = n # attempts_of es"
| "attempts_of (e # es) = attempts_of es"

fun sleeps_of :: "event list \<Rightarrow> real list" where
  "sleeps_of [] = []"
| "sleeps_of (Sleep d # es) = d # sleeps_of es"
| "sleeps_of (e # es) = sleeps_of es"




text \<open>
  An exchange whose clock advances 61 seconds at every reading and which keeps every
  order active; it accepts a cancel request. The second one rejects the cancel request.
\<close>

definition active_info :: order_info where
  "active_info = \<lparr>i_status = Some ''active'', i_isActive = Some True, i_opType = None,
                   i_dealPrice = None, i_dealSize = None\<rparr>"

definition slow_gateway :: "nat gateway" where
  "slow_gateway =
     quiet\<lparr>clock := (\<lambda>w. (int w * (61 * 10 ^ 9), Suc w)),
           create_market_order :=
              (\<lambda>sd z w. (Inr \<lparr>r_status = None, r_oid = Some ''A1''\<rparr>, w)),
           get_order := (\<lambda>oid w. (Inr active_info, w)),
           cancel_order := (\<lambda>oid w. (Inr (), w))\<rparr>"

definition stuck_gateway :: "nat gateway" where
  "stuck_gateway = slow_gateway\<lparr>cancel_order := (\<lambda>oid w. (Inl (KucoinAPIException False), w))\<rparr>"

definition timeout_error :: "string \<Rightarrow> exn" where
  "timeout_error oid = RuntimeError (''Order '' @ oid @ '' canceled after timeout'')"

text \<open>
  The position is open before every call of \<^verbatim>\<open>handle\<close> in a run over the messages, and
  every call returns.
\<close>

fun stays_long :: "'w gateway \<Rightarrow> config \<Rightarrow> msg list \<Rightarrow> trading \<times> 'w sys \<Rightarrow> bool" where
  "stays_long g cfg [] st = True"
| "stays_long g cfg (m # ms) st =
     (in_position (fst st) \<and>
      (case handle g cfg m st of None \<Rightarrow> False | Some st1 \<Rightarrow> stays_long g cfg ms st1))"

text \<open>An exchange whose models predict a high of 1 and a low of 1/2; an open position.\<close>

definition calm_gateway :: "nat gateway" where
  "calm_gateway = quiet\<lparr>predict := (\<lambda>f w. (Inr (1, 1 / 2), w))\<rparr>"

definition tr_long :: trading where
  "tr_long = tr0\<lparr>minList := [bar0], in_position := True, BP := 10, exit_price := 10010 / 1000,
                 buy_time := Some 0, high_water := Some 10\<rparr>"

text \<open>
  A result of the exit branch with the stored profit target set to \<open>x\<close>, and the
  condition of lines 441 to 443 for a position that has a time of entry.
\<close>

definition with_exit_price ::
  "real \<Rightarrow> ((exn + unit) \<times> trading \<times> 'w sys) option \<Rightarrow> ((exn + unit) \<times> trading \<times> 'w sys) option" where
  "with_exit_price x res = map_option (\<lambda>(r, tr', sy'). (r, tr'\<lparr>exit_price := x\<rparr>, sy')) res"

definition exit_condition :: "config \<Rightarrow> real \<Rightarrow> real \<Rightarrow> real \<Rightarrow> int \<Rightarrow> int \<Rightarrow> bool" where
  "exit_condition cfg pr hw curH ts bt =
     (pr \<le> hw * STOP_LOSS_MULT cfg \<or> curH < 0 \<or> ts > bt + TIME_STOP_MINUTES cfg * (60 * 10 ^ 9))"

text \<open>A symbol whose base increment and minimum size are 1.\<close>

definition cfg_unit :: config where
  "cfg_unit = cfg0\<lparr>BASE_MIN_SIZE := 1, BASE_INCREMENT := \<lparr>coeff = 1, places = 0\<rparr>\<rparr>"

text \<open>
  An exchange that reports every order as inactive after a deal and whose models predict
  a high of 1 and a low of 1/2. With an open position and a pending buy record in the
  ledger: an evaluation cycle at the price 12, a reconciliation, a cycle at the price 11.
\<close>

definition deal_calm_gateway :: "nat gateway" where
  "deal_calm_gateway = deal_gateway\<lparr>predict := (\<lambda>f w. (Inr (1, 1 / 2), w))\<rparr>"

definition after_cycle1 :: "trading \<times> nat sys" where
  "after_cycle1 =
     the (handle deal_calm_gateway cfg0 (tick 12 1 (60 * 10 ^ 9 + 5)) (tr_long, sy0\<lparr>db := [open_buy]\<rparr>))"

definition after_sync :: "trading \<times> nat sys" where
  "after_sync = sync_open_trades deal_calm_gateway cfg0 after_cycle1"

definition after_cycle2 :: "trading \<times> nat sys" where
  "after_cycle2 = the (handle deal_calm_gateway cfg0 (tick 11 1 (120 * 10 ^ 9 + 5)) after_sync)"

section \<open>Properties\<close>

lemmas fixture_defs = quiet_def cfg0_def bar0_def tr0_def sy0_def tick_def open_buy_def

lemmas handle_eval = handle_def get_available_def is_new_minute_def update_in_progress_def
  floor_minute_def tick_price_def emit_def msg_price_def msg_size_def msg_minute_def in_minute_def

subsection \<open>The bar in progress\<close>

text \<open>A tick in the minute of the current bar only updates that bar.\<close>

lemma handle_in_minute:
  assumes "b_minute (current_bar tr) = Some bm" and "in_minute bm m"
  shows "\<exists>tr' sy'. handle g cfg m (tr, sy) = Some (tr', sy')
           \<and> current_bar tr' = update_in_progress (current_bar tr) (the (msg_price m)) (msg_size m)"
proof -
  obtain aq sy1 where a1: "get_available g (QUOTE cfg) sy = (aq, sy1)"
    by (cases "get_available g (QUOTE cfg) sy")
  obtain ab sy2 where a2: "get_available g (BASE cfg) sy1 = (ab, sy2)"
    by (cases "get_available g (BASE cfg) sy1")
  from assms(2) obtain d p ts where d: "m_data m = Some d" "tick_price (m_topic m) d = Some p"
      "d_time d = Some ts" "floor_minute ts = bm"
    by (auto simp: in_minute_def msg_price_def msg_minute_def split: option.splits)
  show ?thesis
    using assms(1) d a1 a2
    by (simp add: handle_def is_new_minute_def msg_price_def msg_size_def)
qed

lemma handle_all_in_minute:
  assumes "b_minute (current_bar tr) = Some bm" and "\<forall>m\<in>set ms. in_minute bm m"
  shows "\<exists>tr' sy'. handle_all g cfg ms (tr, sy) = Some (tr', sy')
           \<and> b_minute (current_bar tr') = Some bm
           \<and> b_open (current_bar tr') = b_open (current_bar tr)
           \<and> b_high (current_bar tr) \<le> b_high (current_bar tr')
           \<and> b_low (current_bar tr') \<le> b_low (current_bar tr)
           \<and> (\<forall>m\<in>set ms. the (msg_price m) \<le> b_high (current_bar tr')
                  \<and> b_low (current_bar tr') \<le> the (msg_price m))
           \<and> (ms \<noteq> [] \<longrightarrow> b_close (current_bar tr') = the (msg_price (last ms)))
           \<and> b_volume (current_bar tr') = b_volume (current_bar tr) + sum_list (map msg_size ms)"
  using assms
proof (induction ms arbitrary: tr sy)
  case Nil
  then show ?case by simp
next
  case (Cons m ms)
  from Cons.prems have im: "in_minute bm m" and rest: "\<forall>x\<in>set ms. in_minute bm x" by auto
  from handle_in_minute[OF Cons.prems(1) im, of g cfg sy]
  obtain tr1 sy1 where h: "handle g cfg m (tr, sy) = Some (tr1, sy1)"
     and cb: "current_bar tr1 = update_in_progress (current_bar tr) (the (msg_price m)) (msg_size m)"
    by blast
  have bm1: "b_minute (current_bar tr1) = Some bm"
    using cb Cons.prems(1) by (simp add: update_in_progress_def)
  from Cons.IH[OF bm1 rest, of sy1] obtain tr' sy' where
    r: "handle_all g cfg ms (tr1, sy1) = Some (tr', sy')"
       "b_minute (current_bar tr') = Some bm"
       "b_open (current_bar tr') = b_open (current_bar tr1)"
       "b_high (current_bar tr1) \<le> b_high (current_bar tr')"
       "b_low (current_bar tr') \<le> b_low (current_bar tr1)"
       "\<forall>m\<in>set ms. the (msg_price m) \<le> b_high (current_bar tr')
                  \<and> b_low (current_bar tr') \<le> the (msg_price m)"
       "ms \<noteq> [] \<longrightarrow> b_close (current_bar tr') = the (msg_price (last ms))"
       "b_volume (current_bar tr') = b_volume (current_bar tr1) + sum_list (map msg_size ms)"
    by blast
  have "handle_all g cfg (m # ms) (tr, sy) = Some (tr', sy')" using h r(1) by simp
  moreover have "b_close (current_bar tr') = the (msg_price (last (m # ms)))"
    using r(7) cb r(1) by (cases "ms = []") (auto simp: update_in_progress_def)
  ultimately show ?case
    using r cb by (auto simp: update_in_progress_def)
qed

text \<open>
  Claim C4 (bar aggregation within a minute). For every sequence of ticks whose time
  stamps fall in the minute of the current bar, \<^verbatim>\<open>handle\<close> returns on each of them, and
  afterwards the bar's high is at least every observed price, its low is at most every
  observed price, its close is the last observed price, and its volume is the volume
  it had before plus the sum of the observed sizes.
\<close>

theorem bar_aggregation_within_minute:
  assumes "b_minute (current_bar tr) = Some bm" and "\<forall>m\<in>set ms. in_minute bm m"
  shows "\<exists>tr' sy'. handle_all g cfg ms (tr, sy) = Some (tr', sy')
           \<and> (\<forall>m\<in>set ms. the (msg_price m) \<le> b_high (current_bar tr')
                  \<and> b_low (current_bar tr') \<le> the (msg_price m))
           \<and> (ms \<noteq> [] \<longrightarrow> b_close (current_bar tr') = the (msg_price (last ms)))
           \<and> b_volume (current_bar tr') = b_volume (current_bar tr) + sum_list (map msg_size ms)"
  using handle_all_in_minute[OF assms, of g cfg sy] by blast

theorem bar_aggregation_within_minute_witness:
  "b_minute (current_bar tr0) = Some 0 \<and> in_minute 0 (tick 12 3 5) \<and> in_minute 0 (tick 9 2 6)
   \<and> handle_all quiet cfg0 [tick 12 3 5, tick 9 2 6] (tr0, sy0) \<noteq> None
   \<and> b_high (current_bar (fst (the (handle_all quiet cfg0 [tick 12 3 5, tick 9 2 6] (tr0, sy0))))) = 12
   \<and> b_low (current_bar (fst (the (handle_all quiet cfg0 [tick 12 3 5, tick 9 2 6] (tr0, sy0))))) = 9
   \<and> b_close (current_bar (fst (the (handle_all quiet cfg0 [tick 12 3 5, tick 9 2 6] (tr0, sy0))))) = 9
   \<and> b_volume (current_bar (fst (the (handle_all quiet cfg0 [tick 12 3 5, tick 9 2 6] (tr0, sy0))))) = 6"
  using bar_aggregation_within_minute[of tr0 0 "[tick 12 3 5, tick 9 2 6]" quiet cfg0 sy0]
  by (simp add: fixture_defs handle_eval)

text \<open>
  Claim C5 (duplicate ticks), as stated, fails: the volume is added on every tick, so a
  tick of size 3 processed once leaves the volume 4 and processed twice leaves it 7.
\<close>

theorem duplicate_tick_counterexample:
  "in_minute 0 (tick 12 3 5) \<and> b_minute (current_bar tr0) = Some 0
   \<and> b_volume (current_bar (fst (the (handle_all quiet cfg0 [tick 12 3 5] (tr0, sy0))))) = 4
   \<and> b_volume (current_bar (fst (the (handle_all quiet cfg0 [tick 12 3 5, tick 12 3 5] (tr0, sy0))))) = 7"
  by (simp add: fixture_defs handle_eval)

text \<open>
  Claim C5, amended. For every tick and every current bar of the same minute, processing
  the tick twice leaves minute, open, high, low and close as processing it once does;
  the volume grows by the size of the tick each time.
\<close>

theorem duplicate_tick_ohlc:
  assumes "b_minute (current_bar tr) = Some bm" and "in_minute bm m"
  shows "\<exists>tr1 sy1 tr2 sy2. handle g cfg m (tr, sy) = Some (tr1, sy1)
           \<and> handle g cfg m (tr1, sy1) = Some (tr2, sy2)
           \<and> b_minute (current_bar tr2) = b_minute (current_bar tr1)
           \<and> b_open (current_bar tr2) = b_open (current_bar tr1)
           \<and> b_high (current_bar tr2) = b_high (current_bar tr1)
           \<and> b_low (current_bar tr2) = b_low (current_bar tr1)
           \<and> b_close (current_bar tr2) = b_close (current_bar tr1)
           \<and> b_volume (current_bar tr2) = b_volume (current_bar tr1) + msg_size m"
proof -
  from handle_in_minute[OF assms, of g cfg sy] obtain tr1 sy1 where
    h1: "handle g cfg m (tr, sy) = Some (tr1, sy1)" and
    c1: "current_bar tr1 = update_in_progress (current_bar tr) (the (msg_price m)) (msg_size m)"
    by blast
  have bm1: "b_minute (current_bar tr1) = Some bm"
    using c1 assms(1) by (simp add: update_in_progress_def)
  from handle_in_minute[OF bm1 assms(2), of g cfg sy1] obtain tr2 sy2 where
    h2: "handle g cfg m (tr1, sy1) = Some (tr2, sy2)" and
    c2: "current_bar tr2 = update_in_progress (current_bar tr1) (the (msg_price m)) (msg_size m)"
    by blast
  show ?thesis using h1 h2 c1 c2 by (simp add: update_in_progress_def)
qed

theorem duplicate_tick_ohlc_witness:
  "b_minute (current_bar tr0) = Some 0 \<and> in_minute 0 (tick 12 3 5)
   \<and> b_high (current_bar (fst (the (handle_all quiet cfg0 [tick 12 3 5, tick 12 3 5] (tr0, sy0))))) = 12
   \<and> b_high (current_bar (fst (the (handle_all quiet cfg0 [tick 12 3 5] (tr0, sy0))))) = 12"
  using duplicate_tick_ohlc[of tr0 0 "tick 12 3 5" quiet cfg0 sy0]
  by (simp add: fixture_defs handle_eval)

subsection \<open>The ledger\<close>

lemmas pipeline_eval = place_and_confirm_order_def place_order_with_retry_def
  MAX_ORDER_RETRIES_def INITIAL_RETRY_DELAY_def try_once_def submit_once_def record_order_def
  normalize_status_def create_trade_def emit_def Let_def

lemma get_available_db [simp]: "db (snd (get_available g c sy)) = db sy"
  by (simp add: get_available_def Let_def split: prod.splits sum.splits)


lemma update_trade_status_ids [simp]:
  "map order_id (update_trade_status rows oid st) = map order_id rows"
  by (induction rows) auto

lemma update_trade_status_length [simp]:
  "length (update_trade_status rows oid st) = length rows"
  by (induction rows) auto







subsection \<open>Reconciliation\<close>

text \<open>
  Claim C1 (reconciliation convergence). From a ledger that holds exactly one buy record
  with the status \<^verbatim>\<open>open\<close>, when the exchange reports that order as inactive with the
  operation type \<^verbatim>\<open>deal\<close>, one run of \<^verbatim>\<open>sync_open_trades\<close> leaves the record filled and
  the position open, entered at the record's price and at the record's time stamp.
\<close>

theorem reconciliation_convergence:
  assumes "db sy = [t]" and "status t = ''open''" and "side t = ''buy''"
    and "get_order g (order_id t) (world sy) = (Inr data, w1)"
    and "i_isActive data = Some False" and "i_opType data = Some ''deal''"
  shows "db (snd (sync_open_trades g cfg (tr, sy))) = [t\<lparr>status := ''filled''\<rparr>]
         \<and> in_position (fst (sync_open_trades g cfg (tr, sy)))
         \<and> BP (fst (sync_open_trades g cfg (tr, sy))) = price t
         \<and> buy_time (fst (sync_open_trades g cfg (tr, sy))) = Some (timestamp t)"
proof -
  let ?sy2 = "sy\<lparr>world := w1, db := [t\<lparr>status := ''filled''\<rparr>]\<rparr>"
  obtain dv sy3 where ga: "get_available g (QUOTE cfg) ?sy2 = (dv, sy3)"
    by (cases "get_available g (QUOTE cfg) ?sy2")
  have d3: "db sy3 = [t\<lparr>status := ''filled''\<rparr>]"
    using ga get_available_db[of g "QUOTE cfg" ?sy2] by simp
  have f: "fetch_order_with_retry g (order_id t) sy = (Inr (Some data), sy\<lparr>world := w1\<rparr>)"
    using assms(4) by (simp add: fetch_order_with_retry_def numeral_nat)
  have p: "pending_trades (db sy) = [t]"
    using assms(1,2) by (simp add: pending_trades_def)
  have "sync_open_trades g cfg (tr, sy) =
          (tr\<lparr>in_position := True, BP := price t, buy_time := Some (timestamp t),
              high_water := Some (price t), exit_price := price t * PROFIT_TARGET_MULT cfg,
              DV_before_trade := dv\<rparr>, sy3)"
    using p f assms(1,2,3,5,6) ga
    by (simp add: sync_open_trades_def real_status_of_def)
  then show ?thesis using d3 by simp
qed

theorem reconciliation_convergence_witness:
  "db (sy0\<lparr>db := [open_buy]\<rparr>) = [open_buy] \<and> status open_buy = ''open'' \<and> side open_buy = ''buy''
   \<and> get_order deal_gateway (order_id open_buy) (world (sy0\<lparr>db := [open_buy]\<rparr>)) = (Inr deal_info, 0)
   \<and> i_isActive deal_info = Some False \<and> i_opType deal_info = Some ''deal''
   \<and> map status (db (snd (sync_open_trades deal_gateway cfg0 (tr0, sy0\<lparr>db := [open_buy]\<rparr>)))) = [''filled'']
   \<and> in_position (fst (sync_open_trades deal_gateway cfg0 (tr0, sy0\<lparr>db := [open_buy]\<rparr>)))
   \<and> BP (fst (sync_open_trades deal_gateway cfg0 (tr0, sy0\<lparr>db := [open_buy]\<rparr>))) = 10
   \<and> buy_time (fst (sync_open_trades deal_gateway cfg0 (tr0, sy0\<lparr>db := [open_buy]\<rparr>))) = Some 7"
  using reconciliation_convergence[of "sy0\<lparr>db := [open_buy]\<rparr>" open_buy deal_gateway deal_info 0 cfg0 tr0]
  by (simp add: fixture_defs deal_gateway_def deal_info_def)

subsection \<open>Submission with retry\<close>

lemma attempts_of_append [simp]: "attempts_of (xs @ ys) = attempts_of xs @ attempts_of ys"
  by (induction xs rule: attempts_of.induct) auto

lemma sleeps_of_append [simp]: "sleeps_of (xs @ ys) = sleeps_of xs @ sleeps_of ys"
  by (induction xs rule: sleeps_of.induct) auto








subsection \<open>Confirmation and the timeout\<close>

lemmas slow_eval = slow_gateway_def stuck_gateway_def active_info_def quiet_def cfg0_def sy0_def tr0_def


text \<open>
  Claim C2 (confirmation timeout), as stated, fails: the cancel request is not guarded.
  When the exchange rejects it, its exception leaves \<^verbatim>\<open>place_and_confirm_order\<close> before
  the ledger is updated, and the record stays \<^verbatim>\<open>open\<close>.
\<close>

theorem timeout_cancel_counterexample:
  "i_isActive active_info = Some True
   \<and> fst (the (place_and_confirm_order stuck_gateway cfg0 ''buy'' (Some 10) 2 sy0)) = Inl (KucoinAPIException False)
   \<and> map status (db (snd (the (place_and_confirm_order stuck_gateway cfg0 ''buy'' (Some 10) 2 sy0)))) = [''open'']
   \<and> events (snd (the (place_and_confirm_order stuck_gateway cfg0 ''buy'' (Some 10) 2 sy0)))
        = [Attempt 1, SubmitMarket ''buy'' 2, Cancel ''A1'']"
  by (simp add: pipeline_eval slow_eval confirm_loop.simps numeral_nat)


text \<open>
  Claim C2, amended. When a poll finds the order active and more than 60 seconds have
  passed since polling began, the loop ends there with a failure and has sent one cancel
  request. If the request returns, the failure is the timeout and the record under that
  order id is marked canceled; if the request raises, the failure is its exception and
  the ledger is unchanged. A failed order leaves the position of the caller as it was.
\<close>

theorem timeout_cancel:
  assumes "get_order g oid (world sy) = (Inr info, w1)" and "i_isActive info = Some True"
    and "clock g w1 = (now, w2)" and "now - start_time > 60 * 10 ^ 9"
    and "cancel_order g oid w2 = (r, w3)"
  shows "(\<exists>res sy'. confirm_loop g oid start_time sy = Some (Inl res, sy')
            \<and> events sy' = events sy @ [Cancel oid]
            \<and> (r = Inr () \<longrightarrow> res = timeout_error oid
                   \<and> db sy' = update_trade_status (db sy) oid ''canceled'')
            \<and> (\<forall>e. r = Inl e \<longrightarrow> res = e \<and> db sy' = db sy))
         \<and> (\<forall>e sya syb tr ts q p.
               place_and_confirm_order g cfg ''buy'' (Some p) q (emit (LogBuyRequest q p) sya)
                 = Some (Inl e, syb) \<longrightarrow>
               (\<exists>tr'. attempt_buy g cfg ts q p (tr, sya) = Some (Inr (), tr', emit LogBuyFailed syb)
                    \<and> in_position tr' = in_position tr))
         \<and> (\<forall>e sya syb tr ts q p.
               place_and_confirm_order g cfg ''sell'' (Some p) q (emit (LogSellRequest q p) sya)
                 = Some (Inl e, syb) \<longrightarrow>
               (\<exists>tr'. attempt_sell g cfg p ts q (tr, sya) = Some (Inr (), tr', emit LogSellFailed syb)
                    \<and> in_position tr' = in_position tr))"
proof -
  have p1: "\<exists>res sy'. confirm_loop g oid start_time sy = Some (Inl res, sy')
            \<and> events sy' = events sy @ [Cancel oid]
            \<and> (r = Inr () \<longrightarrow> res = timeout_error oid
                   \<and> db sy' = update_trade_status (db sy) oid ''canceled'')
            \<and> (\<forall>e. r = Inl e \<longrightarrow> res = e \<and> db sy' = db sy)"
    using assms
    by (cases r) (simp_all add: confirm_loop.simps[of g oid start_time sy] Let_def emit_def timeout_error_def)
  show ?thesis using p1 by (simp add: attempt_buy_def attempt_sell_def)
qed

theorem timeout_cancel_witness:
  "get_order slow_gateway ''A1'' (world (sy0\<lparr>world := 2\<rparr>)) = (Inr active_info, 2)
   \<and> i_isActive active_info = Some True
   \<and> clock slow_gateway 2 = (122 * 10 ^ 9, 3) \<and> (122 * 10 ^ 9 - 61 * 10 ^ 9 > (60 * 10 ^ 9 :: int))
   \<and> cancel_order slow_gateway ''A1'' 3 = (Inr (), 3)
   \<and> fst (the (place_and_confirm_order slow_gateway cfg0 ''buy'' (Some 10) 2 sy0)) = Inl (timeout_error ''A1'')
   \<and> map status (db (snd (the (place_and_confirm_order slow_gateway cfg0 ''buy'' (Some 10) 2 sy0)))) = [''canceled'']
   \<and> events (snd (the (place_and_confirm_order slow_gateway cfg0 ''buy'' (Some 10) 2 sy0)))
        = [Attempt 1, SubmitMarket ''buy'' 2, Cancel ''A1'']"
  using timeout_cancel[of slow_gateway "''A1''" "sy0\<lparr>world := 2\<rparr>" active_info 2 "122 * 10 ^ 9" 3 "61 * 10 ^ 9" "Inr ()" 3 cfg0]
  by (simp add: pipeline_eval slow_eval timeout_error_def confirm_loop.simps numeral_nat)

subsection \<open>The high-water mark\<close>

lemma attempt_sell_high_water:
  "attempt_sell g cfg pr ts qty (tr, sy) = Some (r, tr', sy') \<Longrightarrow> high_water tr' = high_water tr"
  by (auto simp: attempt_sell_def Let_def split: option.splits sum.splits prod.splits)

lemma exit_attempt_high_water:
  "exit_attempt g cfg pr ts (tr, sy) = Some (r, tr', sy') \<Longrightarrow> high_water tr' = high_water tr"
  by (auto simp: exit_attempt_def split: sum.splits if_splits dest: attempt_sell_high_water)

lemma sell_branch_high_water:
  assumes "sell_branch g cfg pr curH ts (tr, sy) = Some (r, tr', sy')" and "high_water tr = Some h"
  shows "high_water tr' = Some (max h pr)"
proof -
  let ?tr1 = "tr\<lparr>high_water := Some (if pr > h then pr else h)\<rparr>"
  have m: "(if pr > h then pr else h) = max h pr" by (simp add: max_def)
  show ?thesis
  proof (cases "exit_trigger cfg pr (if pr > h then pr else h) curH ts (buy_time tr)")
    case (Inl e)
    then show ?thesis using assms m by (auto simp: sell_branch_def Let_def)
  next
    case (Inr b)
    show ?thesis
    proof (cases b)
      case True
      then have "exit_attempt g cfg pr ts (?tr1, sy) = Some (r, tr', sy')"
        using assms Inr by (simp add: sell_branch_def Let_def)
      from exit_attempt_high_water[OF this] show ?thesis using m by simp
    next
      case False
      then show ?thesis using assms Inr m by (auto simp: sell_branch_def Let_def)
    qed
  qed
qed

lemma evaluate_high_water:
  assumes "evaluate g cfg pr ts (tr, sy) = Some (r, tr', sy')" and "in_position tr"
    and "high_water tr = Some h"
  shows "high_water tr' = Some h \<or> high_water tr' = Some (max h pr)"
proof (cases "models_ready cfg \<and> length (minList tr) \<ge> 2")
  case False
  then show ?thesis using assms by (auto simp: evaluate_def)
next
  case True
  let ?b1 = "minList tr ! (length (minList tr) - 1)"
  let ?b2 = "minList tr ! (length (minList tr) - 2)"
  show ?thesis
  proof (cases "b_open ?b2 = 0 \<or> b_open ?b1 = 0")
    case True
    then show ?thesis using assms \<open>models_ready cfg \<and> length (minList tr) \<ge> 2\<close>
      by (auto simp: evaluate_def Let_def)
  next
    case False
    let ?feat = "[b_open ?b1 / b_open ?b2, b_high ?b1 / b_open ?b1,
                              b_low ?b1 / b_open ?b1, b_close ?b1 / b_open ?b1,
                              b_volume ?b1 - b_volume ?b2]"
    obtain pq w1 where p: "predict g ?feat (world sy) = (pq, w1)"
      by (cases "predict g ?feat (world sy)")
    show ?thesis
    proof (cases pq)
      case (Inl e)
      then show ?thesis using assms True False p by (auto simp: evaluate_def Let_def)
    next
      case (Inr hl)
      obtain curH curL where hl: "hl = (curH, curL)" by (cases hl)
      let ?tr1 = "tr\<lparr>prediction_high := Some curH, prediction_low := Some curL\<rparr>"
      show ?thesis
      proof (cases "b_low ?b1 = 0")
        case True
        then show ?thesis using assms \<open>models_ready cfg \<and> length (minList tr) \<ge> 2\<close> False p Inr hl
          by (auto simp: evaluate_def Let_def)
      next
        case low: False
        have "sell_branch g cfg pr curH ts (?tr1, sy\<lparr>world := w1\<rparr>) = Some (r, tr', sy')"
          using assms True False p Inr hl low by (auto simp: evaluate_def Let_def)
        from sell_branch_high_water[OF this] assms(3) show ?thesis by simp
      qed
    qed
  qed
qed

lemma handle_high_water:
  assumes "handle g cfg m (tr, sy) = Some (tr', sy')" and "in_position tr"
    and "high_water tr = Some h"
  shows "high_water tr' = Some h \<or> (\<exists>pr. msg_price m = Some pr \<and> high_water tr' = Some (max h pr))"
proof (cases "m_data m")
  case None
  then show ?thesis using assms by (simp add: handle_def)
next
  case (Some d)
  obtain aq sy1 where a1: "get_available g (QUOTE cfg) sy = (aq, sy1)"
    by (cases "get_available g (QUOTE cfg) sy")
  obtain ab sy2 where a2: "get_available g (BASE cfg) sy1 = (ab, sy2)"
    by (cases "get_available g (BASE cfg) sy1")
  let ?tr1 = "tr\<lparr>available_quote := aq, available_base := ab\<rparr>"
  show ?thesis
  proof (cases "tick_price (m_topic m) d")
    case None
    then show ?thesis using assms Some a1 a2 by (auto simp: handle_def)
  next
    case pr: (Some pr)
    have mp: "msg_price m = Some pr" using Some pr by (simp add: msg_price_def)
    show ?thesis
    proof (cases "d_time d")
      case None
      then show ?thesis using assms Some a1 a2 pr by (auto simp: handle_def)
    next
      case ts: (Some ts)
      show ?thesis
      proof (cases "is_new_minute (current_bar ?tr1) (floor_minute ts) \<and> b_minute (current_bar ?tr1) \<noteq> None")
        case False
        then show ?thesis using assms Some a1 a2 pr ts
          by (auto simp: handle_def Let_def split: if_splits)
      next
        case True
        let ?st = "(?tr1\<lparr>minList := push5 (minList ?tr1) (current_bar ?tr1)\<rparr>, sy2)"
        from assms(1) Some a1 a2 pr ts True
        obtain r tr3 sy3 where ev: "evaluate g cfg pr ts ?st = Some (r, tr3, sy3)"
          and hw: "high_water tr' = high_water tr3"
          by (auto simp: handle_def Let_def split: option.splits sum.splits prod.splits if_splits)
        from evaluate_high_water[OF ev] assms(2,3) hw mp show ?thesis by auto
      qed
    qed
  qed
qed


lemma handle_all_append:
  "handle_all g cfg (ms1 @ ms2) st =
     (case handle_all g cfg ms1 st of None \<Rightarrow> None | Some st1 \<Rightarrow> handle_all g cfg ms2 st1)"
  by (induction ms1 arbitrary: st) (auto split: option.splits)

lemma stays_long_append:
  "stays_long g cfg (ms1 @ ms2) st \<Longrightarrow>
     stays_long g cfg ms1 st \<and> (\<forall>st1. handle_all g cfg ms1 st = Some st1 \<longrightarrow> stays_long g cfg ms2 st1)"
  by (induction ms1 arbitrary: st) (auto split: option.splits)

lemma stays_long_high_water:
  assumes "stays_long g cfg ms (tr, sy)" and "high_water tr = Some h"
  shows "\<exists>tr' sy' h'. handle_all g cfg ms (tr, sy) = Some (tr', sy')
           \<and> high_water tr' = Some h' \<and> h \<le> h'"
  using assms
proof (induction ms arbitrary: tr sy h)
  case Nil
  then show ?case by simp
next
  case (Cons m ms)
  from Cons.prems(1) obtain tr1 sy1 where
    h1: "handle g cfg m (tr, sy) = Some (tr1, sy1)" and ip: "in_position tr"
    and sl: "stays_long g cfg ms (tr1, sy1)"
    by (auto split: option.splits)
  from handle_high_water[OF h1 ip Cons.prems(2)] obtain h1' where
    hw1: "high_water tr1 = Some h1'" "h \<le> h1'"
    by auto
  from Cons.IH[OF sl hw1(1)] obtain tr' sy' h' where
    "handle_all g cfg ms (tr1, sy1) = Some (tr', sy')" "high_water tr' = Some h'" "h1' \<le> h'"
    by blast
  then show ?case using h1 hw1(2) by auto
qed


lemmas long_eval = handle_def evaluate_def sell_branch_def exit_trigger_def push5_def
  start_new_bar_def calm_gateway_def tr_long_def

text \<open>What a run of the reconciliation does to the high-water mark.\<close>

lemma sync_step:
  "\<exists>tr' sy'. sync_loop g cfg (t # ts) (tr, sy) = sync_loop g cfg ts (tr', sy')
      \<and> (high_water tr' = high_water tr \<or> (side t = ''buy'' \<and> high_water tr' = Some (price t)))"
proof -
  obtain r sy1 where f: "fetch_order_with_retry g (order_id t) sy = (r, sy1)"
    by (cases "fetch_order_with_retry g (order_id t) sy")
  let ?sy2 = "sy1\<lparr>db := update_trade_status (db sy1) (order_id t) ''filled''\<rparr>"
  obtain dv sy3 where ga: "get_available g (QUOTE cfg) ?sy2 = (dv, sy3)"
    by (cases "get_available g (QUOTE cfg) ?sy2")
  show ?thesis
  proof (cases r)
    case (Inl e)
    then show ?thesis using f by auto
  next
    case (Inr od)
    show ?thesis
    proof (cases od)
      case None
      then show ?thesis using f Inr by auto
    next
      case (Some data)
      show ?thesis using f Inr Some ga by (auto simp: Let_def)
    qed
  qed
qed

lemma sync_loop_high_water:
  "high_water (fst (sync_loop g cfg ps (tr, sy))) = high_water tr
   \<or> (\<exists>t\<in>set ps. side t = ''buy''
          \<and> high_water (fst (sync_loop g cfg ps (tr, sy))) = Some (price t))"
proof (induction ps arbitrary: tr sy)
  case Nil
  then show ?case by simp
next
  case (Cons t ts)
  from sync_step[of g cfg t ts tr sy] obtain tr' sy' where
    s: "sync_loop g cfg (t # ts) (tr, sy) = sync_loop g cfg ts (tr', sy')"
       "high_water tr' = high_water tr \<or> (side t = ''buy'' \<and> high_water tr' = Some (price t))"
    by blast
  from Cons.IH[of tr' sy'] s show ?case by auto
qed

text \<open>
  Claim C7 (high-water mark), as stated, fails: \<^verbatim>\<open>sync_open_trades\<close> runs before every
  forced call of \<^verbatim>\<open>handle\<close> and sets the mark to the price of a pending buy that it
  finds filled. With the position open throughout, the mark is 12 after a cycle at the
  price 12, 10 after the reconciliation, and 11 after the next cycle at the price 11.
\<close>

theorem high_water_reset_counterexample:
  "in_position tr_long \<and> high_water tr_long = Some 10
   \<and> in_position (fst after_cycle1) \<and> high_water (fst after_cycle1) = Some 12
   \<and> in_position (fst after_sync) \<and> high_water (fst after_sync) = Some 10
   \<and> in_position (fst after_cycle2) \<and> high_water (fst after_cycle2) = Some 11"
proof -
  have c1: "after_cycle1 =
      (tr_long\<lparr>minList := [bar0, bar0], prediction_high := Some 1, prediction_low := Some (1 / 2),
          high_water := Some 12, current_bar := start_new_bar (60 * 10 ^ 9) 12 1\<rparr>,
       sy0\<lparr>db := [open_buy]\<rparr>)"
    by (simp add: after_cycle1_def long_eval deal_calm_gateway_def deal_gateway_def fixture_defs
          handle_eval Let_def)
  have c2: "after_sync =
      (tr_long\<lparr>minList := [bar0, bar0], prediction_high := Some 1, prediction_low := Some (1 / 2),
          high_water := Some 10, current_bar := start_new_bar (60 * 10 ^ 9) 12 1,
          buy_time := Some 7, exit_price := 10 * (1001 / 1000)\<rparr>,
       sy0\<lparr>db := [open_buy\<lparr>status := ''filled''\<rparr>]\<rparr>)"
    unfolding after_sync_def c1
    by (simp add: sync_open_trades_def pending_trades_def fetch_order_with_retry_def
          real_status_of_def get_available_def deal_calm_gateway_def deal_gateway_def deal_info_def
          fixture_defs tr_long_def numeral_nat Let_def)
  have c3: "in_position (fst after_cycle2) \<and> high_water (fst after_cycle2) = Some 11"
    unfolding after_cycle2_def c2
    by (simp add: long_eval deal_calm_gateway_def deal_gateway_def fixture_defs
          handle_eval Let_def)
  show ?thesis using c3 by (simp add: c1 c2 tr_long_def tr0_def)
qed

text \<open>
  Claim C7, amended. While the position is open, over every sequence of calls of
  \<^verbatim>\<open>handle\<close> with no reconciliation between them the high-water mark never decreases
  from one call to a later one, and after a single call it is either unchanged or the
  larger of its old value and the price observed in that call. A run of the
  reconciliation leaves the mark unchanged or sets it to the price of a buy record that
  was pending.
\<close>

theorem high_water_monotone:
  assumes "stays_long g cfg (ms1 @ ms2) (tr, sy)" and "high_water tr = Some h"
  shows "(\<exists>tr1 sy1 tr2 sy2 h1 h2.
            handle_all g cfg ms1 (tr, sy) = Some (tr1, sy1)
            \<and> handle_all g cfg ms2 (tr1, sy1) = Some (tr2, sy2)
            \<and> high_water tr1 = Some h1 \<and> high_water tr2 = Some h2 \<and> h \<le> h1 \<and> h1 \<le> h2)
         \<and> (\<forall>m tr' sy'. in_position tr \<and> handle g cfg m (tr, sy) = Some (tr', sy') \<longrightarrow>
               high_water tr' = Some h
               \<or> (\<exists>pr. msg_price m = Some pr \<and> high_water tr' = Some (max h pr)))
         \<and> (high_water (fst (sync_open_trades g cfg (tr, sy))) = Some h
             \<or> (\<exists>t\<in>set (pending_trades (db sy)). side t = ''buy''
                   \<and> high_water (fst (sync_open_trades g cfg (tr, sy))) = Some (price t)))"
proof -
  from stays_long_append[OF assms(1)] have
    s1: "stays_long g cfg ms1 (tr, sy)" and
    s2: "\<forall>st1. handle_all g cfg ms1 (tr, sy) = Some st1 \<longrightarrow> stays_long g cfg ms2 st1"
    by auto
  from stays_long_high_water[OF s1 assms(2)] obtain tr1 sy1 h1 where
    a: "handle_all g cfg ms1 (tr, sy) = Some (tr1, sy1)" "high_water tr1 = Some h1" "h \<le> h1"
    by blast
  from s2 a(1) have "stays_long g cfg ms2 (tr1, sy1)" by simp
  from stays_long_high_water[OF this a(2)] obtain tr2 sy2 h2 where
    b: "handle_all g cfg ms2 (tr1, sy1) = Some (tr2, sy2)" "high_water tr2 = Some h2" "h1 \<le> h2"
    by blast
  have c: "high_water tr' = Some h
               \<or> (\<exists>pr. msg_price m = Some pr \<and> high_water tr' = Some (max h pr))"
    if "in_position tr" "handle g cfg m (tr, sy) = Some (tr', sy')" for m tr' sy'
    using handle_high_water[OF that(2) that(1) assms(2)] .
  have d: "high_water (fst (sync_open_trades g cfg (tr, sy))) = Some h
             \<or> (\<exists>t\<in>set (pending_trades (db sy)). side t = ''buy''
                   \<and> high_water (fst (sync_open_trades g cfg (tr, sy))) = Some (price t))"
    using sync_loop_high_water[of g cfg "pending_trades (db sy)" tr sy] assms(2)
    by (simp add: sync_open_trades_def)
  show ?thesis using a b c d by blast
qed

theorem high_water_monotone_witness:
  "stays_long calm_gateway cfg0 ([tick 12 1 (60 * 10 ^ 9 + 5)] @ [tick (119 / 10) 1 (120 * 10 ^ 9 + 5)]) (tr_long, sy0)
   \<and> high_water tr_long = Some 10
   \<and> high_water (fst (the (handle_all calm_gateway cfg0 [tick 12 1 (60 * 10 ^ 9 + 5)] (tr_long, sy0))))
        = Some 12
   \<and> high_water (fst (the (handle_all calm_gateway cfg0
        [tick 12 1 (60 * 10 ^ 9 + 5), tick (119 / 10) 1 (120 * 10 ^ 9 + 5)] (tr_long, sy0)))) = Some 12
   \<and> high_water (fst (sync_open_trades calm_gateway cfg0 (tr_long, sy0))) = Some 10"
  using high_water_monotone[of calm_gateway cfg0 "[tick 12 1 (60 * 10 ^ 9 + 5)]" "[tick (119 / 10) 1 (120 * 10 ^ 9 + 5)]" tr_long sy0 10]
  by (simp add: long_eval fixture_defs handle_eval sync_open_trades_def pending_trades_def Let_def)

subsection \<open>Order sizes\<close>

lemma log10_inv_pow: "log 10 (1 / 10 ^ k) = - real k"
  by (simp add: log_recip)

lemma sell_qty_cfg0: "sell_qty cfg0 (1 / 10) = Inr (1 / 10)"
proof -
  have l: "log 10 (1 / 10000) = - 4" using log10_inv_pow[of 4] by simp
  have t: "trunc (- 4) = - 4" by (simp add: trunc_def)
  show ?thesis
    by (simp add: sell_qty_def cfg0_def dec_val_def Let_def l t py_round_def round_half_even_def)
qed


text \<open>
  Claim C9 (exit validation) says that the exit is skipped exactly when the quantity is
  below the minimum size and that a sell is submitted when it is at least the minimum.
  The code tests \<^verbatim>\<open>qty <= BASE_MIN_SIZE\<close>: with a base balance of 0.1, an increment of
  0.0001 and a minimum size of 0.1 the quantity is 0.1, the exit condition holds, and the
  cycle is skipped with the log line for a missing balance; nothing is submitted.
\<close>

theorem exit_skipped_at_minimum_size:
  "sell_qty cfg0 (1 / 10) = Inr (1 / 10) \<and> BASE_MIN_SIZE cfg0 = 1 / 10
   \<and> exit_condition cfg0 (98 / 10) (max 10 (98 / 10)) 1 (60 * 10 ^ 9) 0
   \<and> sell_branch calm_gateway cfg0 (98 / 10) 1 (60 * 10 ^ 9) (tr_long\<lparr>available_base := 1 / 10\<rparr>, sy0)
        = Some (Inr (), tr_long\<lparr>available_base := 1 / 10\<rparr>, emit LogNotEnoughToSell sy0)"
  using sell_qty_cfg0
  by (simp add: sell_branch_def exit_trigger_def exit_attempt_def exit_condition_def
        tr_long_def tr0_def cfg0_def Let_def)



text \<open>
  Claim C3 (entry sizing) says that the buy quantity is the quotient of balance and
  price floored to the base increment. The code cuts the quotient to the number of
  decimal places that the text of the increment has: with an increment of 1 (written
  \<^verbatim>\<open>1.0\<close>), a balance of 100 and a price of 8 it asks for 12.5 units, where the floor to
  the increment is 12.
\<close>

theorem buy_quantity_off_increment:
  "dec_val (BASE_INCREMENT cfg_unit) = 1
   \<and> quantize_down (BASE_INCREMENT cfg_unit) (100 / 8) = 25 / 2
   \<and> real_of_int \<lfloor>(100 / 8) / dec_val (BASE_INCREMENT cfg_unit)\<rfloor> * dec_val (BASE_INCREMENT cfg_unit) = 12
   \<and> take 3 (events (snd (snd (the (buy_branch quiet cfg_unit 8 (60 * 10 ^ 9)
          (tr0\<lparr>available_quote := 100\<rparr>, sy0))))))
        = [LogBuyRequest (25 / 2) 8, Attempt 1, SubmitMarket ''buy'' (25 / 2)]"
  by (simp add: buy_branch_def attempt_buy_def floor_price_to_tick_def trunc_def quantize_down_def
        dec_val_def cfg_unit_def pipeline_eval fixture_defs numeral_nat)

subsection \<open>What the sizing code does in general\<close>

lemma trunc_le: "0 \<le> x \<Longrightarrow> real_of_int (trunc x) \<le> x"
  by (simp add: trunc_def)

lemma quantize_down_le:
  assumes "0 \<le> x"
  shows "quantize_down q x \<le> x"
proof -
  let ?n = "repr_places (coeff q) (places q)"
  have "real_of_int (trunc (x * 10 ^ ?n)) \<le> x * 10 ^ ?n"
    using assms by (intro trunc_le) simp
  then have "real_of_int (trunc (x * 10 ^ ?n)) / 10 ^ ?n \<le> x"
    by (simp add: divide_le_eq)
  then show ?thesis by (simp add: quantize_down_def Let_def)
qed

text \<open>
  For an increment \<open>1 / 10 ^ k\<close> with \<open>k > 0\<close> the buy quantity is the floor to a
  multiple of the increment.
\<close>

lemma quantize_down_power_of_ten:
  assumes "coeff q = 1" and "places q = Suc k" and "0 \<le> x"
  shows "quantize_down q x = real_of_int \<lfloor>x / dec_val q\<rfloor> * dec_val q"
  using assms by (simp add: quantize_down_def dec_val_def trunc_def)

text \<open>
  With a positive quantized price the entry never asks for more than the balance buys,
  and it is skipped with a log line when the quantity is below the minimum size.
\<close>

lemma buy_branch_sizing:
  assumes "available_quote tr > 1 / 10 ^ 8"
    and "get_ticker g (world sy) = (tk, w1)"
    and "floor_price_to_tick cfg (case tk of Inr t \<Rightarrow> bestBid t * (1 + LIMIT_SLIPPAGE cfg) | Inl e \<Rightarrow> pr) = Inr p"
    and "0 < p"
  shows "quantize_down (BASE_INCREMENT cfg) (available_quote tr / p) * p \<le> available_quote tr
         \<and> buy_branch g cfg pr ts (tr, sy) =
             (if quantize_down (BASE_INCREMENT cfg) (available_quote tr / p) < BASE_MIN_SIZE cfg
              then Some (Inr (), tr, emit LogQtyBelowMin (sy\<lparr>world := w1\<rparr>))
              else attempt_buy g cfg ts (quantize_down (BASE_INCREMENT cfg) (available_quote tr / p)) p
                     (tr, sy\<lparr>world := w1\<rparr>))"
proof -
  have "0 \<le> available_quote tr / p" using assms(1,4) by simp
  from quantize_down_le[OF this, of "BASE_INCREMENT cfg"]
  have "quantize_down (BASE_INCREMENT cfg) (available_quote tr / p) * p \<le> available_quote tr"
    using assms(4) by (simp add: pos_le_divide_eq)
  moreover have "buy_branch g cfg pr ts (tr, sy) =
             (if quantize_down (BASE_INCREMENT cfg) (available_quote tr / p) < BASE_MIN_SIZE cfg
              then Some (Inr (), tr, emit LogQtyBelowMin (sy\<lparr>world := w1\<rparr>))
              else attempt_buy g cfg ts (quantize_down (BASE_INCREMENT cfg) (available_quote tr / p)) p
                     (tr, sy\<lparr>world := w1\<rparr>))"
    using assms by (simp add: buy_branch_def Let_def)
  ultimately show ?thesis by simp
qed

lemma round_half_even_int: "round_half_even (real_of_int n) = n"
  by (simp add: round_half_even_def)

text \<open>
  For an increment \<open>1 / 10 ^ k\<close> the sell quantity is the balance floored to a multiple
  of the increment, and the exit is skipped when it is at most the minimum size.
\<close>

lemma sell_qty_power_of_ten:
  assumes "BASE_INCREMENT cfg = \<lparr>coeff = 1, places = k\<rparr>"
  shows "sell_qty cfg raw = Inr (real_of_int \<lfloor>raw * 10 ^ k\<rfloor> / 10 ^ k)"
proof -
  have inc: "dec_val (BASE_INCREMENT cfg) = 1 / 10 ^ k" using assms by (simp add: dec_val_def)
  have l: "log 10 (1 / 10 ^ k) = - real k" by (rule log10_inv_pow)
  have "- real k = real_of_int (- int k)" by simp
  then have c: "\<lceil>- real k\<rceil> = - int k" "\<lfloor>- real k\<rfloor> = - int k"
    by (simp_all only: ceiling_of_int floor_of_int)
  have t: "trunc (- real k) = - int k" using c by (simp add: trunc_def)
  have p: "nat (max 0 (- trunc (log 10 (1 / 10 ^ k)))) = k" using l t by simp
  have r: "py_round (real_of_int \<lfloor>raw * 10 ^ k\<rfloor> / 10 ^ k) k = real_of_int \<lfloor>raw * 10 ^ k\<rfloor> / 10 ^ k"
    by (simp add: py_round_def round_half_even_int)
  show ?thesis using inc p r by (simp add: sell_qty_def Let_def)
qed

lemma exit_attempt_decision:
  assumes "sell_qty cfg (available_base tr) = Inr q"
  shows "exit_attempt g cfg pr ts (tr, sy) =
           (if q \<le> BASE_MIN_SIZE cfg then Some (Inr (), tr, emit LogNotEnoughToSell sy)
            else attempt_sell g cfg pr ts q (tr, sy))"
  using assms by (simp add: exit_attempt_def)

subsection \<open>The exit decision\<close>

lemma attempt_sell_exit_price:
  "attempt_sell g cfg pr ts qty (tr\<lparr>exit_price := x\<rparr>, sy)
     = with_exit_price x (attempt_sell g cfg pr ts qty (tr, sy))"
  by (simp add: attempt_sell_def with_exit_price_def Let_def
           split: option.splits sum.splits prod.splits)

lemma exit_attempt_exit_price:
  "exit_attempt g cfg pr ts (tr\<lparr>exit_price := x\<rparr>, sy)
     = with_exit_price x (exit_attempt g cfg pr ts (tr, sy))"
proof (cases "sell_qty cfg (available_base tr)")
  case (Inl e)
  then show ?thesis by (simp add: exit_attempt_def with_exit_price_def)
next
  case (Inr qty)
  show ?thesis
  proof (cases "qty \<le> BASE_MIN_SIZE cfg")
    case True
    then show ?thesis using Inr by (simp add: exit_attempt_def with_exit_price_def)
  next
    case False
    then show ?thesis using Inr
      by (simp add: exit_attempt_def attempt_sell_exit_price)
  qed
qed

lemma sell_branch_exit_price:
  "sell_branch g cfg pr curH ts (tr\<lparr>exit_price := x\<rparr>, sy)
     = with_exit_price x (sell_branch g cfg pr curH ts (tr, sy))"
proof (cases "high_water tr")
  case None
  then show ?thesis by (simp add: sell_branch_def with_exit_price_def)
next
  case (Some h0)
  let ?hw = "if pr > h0 then pr else h0"
  have sw: "tr\<lparr>exit_price := x, high_water := Some ?hw\<rparr> = tr\<lparr>high_water := Some ?hw, exit_price := x\<rparr>"
    by simp
  show ?thesis
  proof (cases "exit_trigger cfg pr ?hw curH ts (buy_time tr)")
    case (Inl e)
    then show ?thesis using Some by (simp add: sell_branch_def with_exit_price_def Let_def)
  next
    case (Inr b)
    show ?thesis
    proof (cases b)
      case True
      then show ?thesis
        using Some Inr exit_attempt_exit_price[where tr = "tr\<lparr>high_water := Some ?hw\<rparr>"
            and x = x and g = g and cfg = cfg and pr = pr and ts = ts and sy = sy]
        by (simp add: sell_branch_def Let_def sw del: if_split)
    next
      case False
      then show ?thesis using Some Inr by (simp add: sell_branch_def with_exit_price_def Let_def)
    qed
  qed
qed


text \<open>
  Claim C10 (the profit target is never read), as stated, fails in one direction: the
  exit condition holding does not close the position. With the trailing stop reached
  (9.8 against a mark of 10) and no base balance, the sale is not attempted and the
  position stays open.
\<close>

theorem exit_condition_counterexample:
  "exit_condition cfg0 (98 / 10) (max 10 (98 / 10)) 1 (60 * 10 ^ 9) 0
   \<and> in_position tr_long \<and> high_water tr_long = Some 10 \<and> buy_time tr_long = Some 0
   \<and> available_base tr_long = 0
   \<and> sell_branch calm_gateway cfg0 (98 / 10) 1 (60 * 10 ^ 9) (tr_long, sy0)
        = Some (Inr (), tr_long, emit LogNotEnoughToSell sy0)"
proof -
  have q: "sell_qty cfg0 0 = Inr 0"
    using sell_qty_power_of_ten[of cfg0 4 0] by (simp add: cfg0_def)
  show ?thesis
    using q
    by (simp add: sell_branch_def exit_trigger_def exit_attempt_def exit_condition_def
          tr_long_def tr0_def cfg0_def Let_def)
qed

text \<open>
  Claim C10, amended. The stored \<^verbatim>\<open>exit_price\<close> is never read by the exit decision: for
  an open position, the branch of \<^verbatim>\<open>handle\<close> that decides the exit gives the same result
  whatever the stored value is. The sale is attempted exactly when the trailing stop, a
  negative predicted high or the time stop holds; otherwise the position stays open and
  nothing else is done; and the position is closed only when one of the three holds.
\<close>

theorem profit_target_unused:
  assumes "in_position tr" and "high_water tr = Some h0" and "buy_time tr = Some bt"
  shows "sell_branch g cfg pr curH ts (tr\<lparr>exit_price := x\<rparr>, sy)
           = with_exit_price x (sell_branch g cfg pr curH ts (tr, sy))
         \<and> (exit_condition cfg pr (max h0 pr) curH ts bt \<longrightarrow>
               sell_branch g cfg pr curH ts (tr, sy)
                 = exit_attempt g cfg pr ts (tr\<lparr>high_water := Some (max h0 pr)\<rparr>, sy))
         \<and> (\<not> exit_condition cfg pr (max h0 pr) curH ts bt \<longrightarrow>
               sell_branch g cfg pr curH ts (tr, sy)
                 = Some (Inr (), tr\<lparr>high_water := Some (max h0 pr)\<rparr>, sy))
         \<and> (\<forall>r tr' sy'. sell_branch g cfg pr curH ts (tr, sy) = Some (r, tr', sy')
               \<and> \<not> in_position tr' \<longrightarrow> exit_condition cfg pr (max h0 pr) curH ts bt)"
proof -
  have m: "(if pr > h0 then pr else h0) = max h0 pr" by (simp add: max_def)
  have et: "exit_trigger cfg pr (max h0 pr) curH ts (Some bt)
              = Inr (exit_condition cfg pr (max h0 pr) curH ts bt)"
    by (simp add: exit_trigger_def exit_condition_def)
  have p2: "sell_branch g cfg pr curH ts (tr, sy)
                 = exit_attempt g cfg pr ts (tr\<lparr>high_water := Some (max h0 pr)\<rparr>, sy)"
    if "exit_condition cfg pr (max h0 pr) curH ts bt"
    using that assms(2,3) et m by (simp add: sell_branch_def Let_def del: if_split)
  have p3: "sell_branch g cfg pr curH ts (tr, sy)
                 = Some (Inr (), tr\<lparr>high_water := Some (max h0 pr)\<rparr>, sy)"
    if "\<not> exit_condition cfg pr (max h0 pr) curH ts bt"
    using that assms(2,3) et m by (simp add: sell_branch_def Let_def del: if_split)
  have p4: "exit_condition cfg pr (max h0 pr) curH ts bt"
    if "sell_branch g cfg pr curH ts (tr, sy) = Some (r, tr', sy')" "\<not> in_position tr'" for r tr' sy'
  proof (rule ccontr)
    assume "\<not> exit_condition cfg pr (max h0 pr) curH ts bt"
    from p3[OF this] that assms(1) show False by auto
  qed
  show ?thesis using sell_branch_exit_price p2 p3 p4 by blast
qed

theorem profit_target_unused_witness:
  "in_position tr_long \<and> high_water tr_long = Some 10 \<and> buy_time tr_long = Some 0
   \<and> exit_price tr_long \<le> 1002 / 100
   \<and> exit_condition cfg0 (1002 / 100) (max 10 (1002 / 100)) 1 (60 * 10 ^ 9) 0 = False
   \<and> sell_branch calm_gateway cfg0 (1002 / 100) 1 (60 * 10 ^ 9) (tr_long, sy0)
        = Some (Inr (), tr_long\<lparr>high_water := Some (1002 / 100)\<rparr>, sy0)
   \<and> exit_condition cfg0 (98 / 10) (max 10 (98 / 10)) 1 (60 * 10 ^ 9) 0 = True
   \<and> sell_branch calm_gateway cfg0 (98 / 10) 1 (60 * 10 ^ 9) (tr_long, sy0)
        = exit_attempt calm_gateway cfg0 (98 / 10) (60 * 10 ^ 9) (tr_long\<lparr>high_water := Some 10\<rparr>, sy0)"
  using profit_target_unused[of tr_long 10 0 calm_gateway cfg0 "1002 / 100" 1 "60 * 10 ^ 9" 0 sy0]
        profit_target_unused[of tr_long 10 0 calm_gateway cfg0 "98 / 10" 1 "60 * 10 ^ 9" 0 sy0]
  by (simp add: exit_condition_def tr_long_def tr0_def cfg0_def)

end
